theory Spec2Isabelle
  imports Main "HOL-Library.Code_Target_Nat"
begin

section \<open>Strings\<close>

text \<open>
  A Go string is a sequence of bytes; \<open>string\<close> (a list of 8-bit characters) is the same
  thing. The helpers of package \<open>strings\<close> that the parsers call are written out on bytes.
\<close>

definition byte :: "char \<Rightarrow> nat" where
  "byte c = of_char c"

definition asciiSpace :: "char \<Rightarrow> bool" where
  \<comment> \<open>the table \<open>asciiSpace\<close> of package strings: tab, newline, vertical tab, form feed,
      carriage return, space\<close>
  "asciiSpace c = (let n = byte c in (9 \<le> n \<and> n \<le> 13) \<or> n = 32)"

text \<open>
  \<open>unicode.IsSpace\<close> holds of the six ASCII characters above and of U+0085, U+00A0,
  U+1680, U+2000..U+200A, U+2028, U+2029, U+202F, U+205F and U+3000. In a Go string
  these are the UTF-8 sequences C2 85, C2 A0, E1 9A 80, E2 80 80..8A, E2 80 A8, E2 80 A9,
  E2 80 AF, E2 81 9F and E3 80 80. \<open>space2\<close> and \<open>space3\<close> recognise the two-byte and
  three-byte ones.
\<close>

definition space2 :: "char \<Rightarrow> char \<Rightarrow> bool" where
  "space2 c0 c1 = (byte c0 = 194 \<and> (byte c1 = 133 \<or> byte c1 = 160))"

definition space3 :: "char \<Rightarrow> char \<Rightarrow> char \<Rightarrow> bool" where
  "space3 c0 c1 c2 =
     (let b0 = byte c0; b1 = byte c1; b2 = byte c2 in
        (b0 = 225 \<and> b1 = 154 \<and> b2 = 128) \<or>
        (b0 = 226 \<and> b1 = 128 \<and> ((128 \<le> b2 \<and> b2 \<le> 138) \<or> b2 = 168 \<or> b2 = 169 \<or> b2 = 175)) \<or>
        (b0 = 226 \<and> b1 = 129 \<and> b2 = 159) \<or>
        (b0 = 227 \<and> b1 = 128 \<and> b2 = 128))"

fun TrimLeftSpace :: "string \<Rightarrow> string" where
  "TrimLeftSpace (c0 # c1 # c2 # r) =
     (if asciiSpace c0 then TrimLeftSpace (c1 # c2 # r)
      else if space2 c0 c1 then TrimLeftSpace (c2 # r)
      else if space3 c0 c1 c2 then TrimLeftSpace r
      else c0 # c1 # c2 # r)"
| "TrimLeftSpace [c0, c1] =
     (if asciiSpace c0 then TrimLeftSpace [c1]
      else if space2 c0 c1 then []
      else [c0, c1])"
| "TrimLeftSpace [c0] = (if asciiSpace c0 then [] else [c0])"
| "TrimLeftSpace [] = []"

text \<open>The same from the right, on the reversed string (last byte first).\<close>

fun TrimLeftSpaceRev :: "string \<Rightarrow> string" where
  "TrimLeftSpaceRev (c2 # c1 # c0 # r) =
     (if asciiSpace c2 then TrimLeftSpaceRev (c1 # c0 # r)
      else if space2 c1 c2 then TrimLeftSpaceRev (c0 # r)
      else if space3 c0 c1 c2 then TrimLeftSpaceRev r
      else c2 # c1 # c0 # r)"
| "TrimLeftSpaceRev [c1, c0] =
     (if asciiSpace c1 then TrimLeftSpaceRev [c0]
      else if space2 c0 c1 then []
      else [c1, c0])"
| "TrimLeftSpaceRev [c0] = (if asciiSpace c0 then [] else [c0])"
| "TrimLeftSpaceRev [] = []"

definition TrimRightSpace :: "string \<Rightarrow> string" where
  "TrimRightSpace s = rev (TrimLeftSpaceRev (rev s))"

definition TrimSpace :: "string \<Rightarrow> string" where
  \<comment> \<open>\<open>strings.TrimSpace\<close>: all leading and trailing white space removed\<close>
  "TrimSpace s = TrimRightSpace (TrimLeftSpace s)"

text \<open>
  The width of the UTF-8 character at the head of a string, as \<open>utf8.DecodeRuneInString\<close>
  gives it (1 for a byte that starts no valid encoding).
\<close>

definition cont :: "char \<Rightarrow> bool" where
  "cont c = (128 \<le> byte c \<and> byte c \<le> 191)"

fun rune_width :: "string \<Rightarrow> nat" where
  "rune_width [] = 0"
| "rune_width (c0 # r) =
     (let b0 = byte c0 in
        if b0 < 194 \<or> b0 > 244 then 1
        else if b0 < 224 then (case r of c1 # _ \<Rightarrow> if cont c1 then 2 else 1 | _ \<Rightarrow> 1)
        else if b0 < 240 then
          (case r of
             c1 # c2 # _ \<Rightarrow>
               if (if b0 = 224 then 160 \<le> byte c1 \<and> byte c1 \<le> 191
                   else if b0 = 237 then 128 \<le> byte c1 \<and> byte c1 \<le> 159
                   else cont c1) \<and> cont c2 then 3 else 1
           | _ \<Rightarrow> 1)
        else
          (case r of
             c1 # c2 # c3 # _ \<Rightarrow>
               if (if b0 = 240 then 144 \<le> byte c1 \<and> byte c1 \<le> 191
                   else if b0 = 244 then 128 \<le> byte c1 \<and> byte c1 \<le> 143
                   else cont c1) \<and> cont c2 \<and> cont c3 then 4 else 1
           | _ \<Rightarrow> 1))"

definition EncodeRune :: "nat \<Rightarrow> string" where
  \<comment> \<open>\<open>utf8.EncodeRune\<close>; a surrogate or a value beyond U+10FFFF is written as U+FFFD\<close>
  "EncodeRune r =
     (if r < 128 then [char_of r]
      else if r < 2048 then [char_of (192 + r div 64), char_of (128 + r mod 64)]
      else if (55296 \<le> r \<and> r < 57344) \<or> r > 1114111 then [char_of (239::nat), char_of (191::nat), char_of (189::nat)]
      else if r < 65536 then
        [char_of (224 + r div 4096), char_of (128 + (r div 64) mod 64), char_of (128 + r mod 64)]
      else
        [char_of (240 + r div 262144), char_of (128 + (r div 4096) mod 64),
         char_of (128 + (r div 64) mod 64), char_of (128 + r mod 64)])"

definition DecodeRune :: "string \<Rightarrow> nat \<times> nat" where
  \<comment> \<open>\<open>utf8.DecodeRuneInString\<close>: the character at the head of a string and its width;
      U+FFFD with width 1 for a byte that starts no valid encoding\<close>
  "DecodeRune s =
     (case take (rune_width s) s of
        [c0] \<Rightarrow> (if byte c0 < 128 then byte c0 else 65533, 1)
      | [c0, c1] \<Rightarrow> ((byte c0 mod 32) * 64 + byte c1 mod 64, 2)
      | [c0, c1, c2] \<Rightarrow> (((byte c0 mod 16) * 64 + byte c1 mod 64) * 64 + byte c2 mod 64, 3)
      | [c0, c1, c2, c3] \<Rightarrow>
          ((((byte c0 mod 8) * 64 + byte c1 mod 64) * 64 + byte c2 mod 64) * 64 + byte c3 mod 64, 4)
      | _ \<Rightarrow> (65533, 0))"

text \<open>
  \<open>strings.Map\<close> with a mapping that drops no character: every character of the string is
  decoded, mapped and encoded again; a byte that starts no valid encoding is read as
  U+FFFD, so it is written as the three bytes of that character.
\<close>

fun Map :: "(nat \<Rightarrow> nat) \<Rightarrow> string \<Rightarrow> string" where
  "Map f [] = []"
| "Map f (c # cs) =
     EncodeRune (f (fst (DecodeRune (c # cs)))) @ Map f (drop (rune_width (c # cs) - 1) cs)"

text \<open>
  The case mappings of \<open>unicode.ToLower\<close> and \<open>unicode.ToUpper\<close> beyond ASCII: the simple
  lower-case and upper-case mappings of the Unicode Character Database (version 15.0),
  as ranges \<open>(lo, hi, stride, delta)\<close>: a character \<open>r\<close> with \<open>lo \<le> r \<le> hi\<close> and
  \<open>r - lo\<close> a multiple of \<open>stride\<close> is mapped to \<open>r + delta\<close>; a character in no range is
  mapped to itself.
\<close>

definition lowerRanges :: "(nat \<times> nat \<times> nat \<times> int) list" where
  "lowerRanges =
    [(192, 214, 1, 32), (216, 222, 1, 32), (256, 302, 2, 1), (304, 304, 1, - 199),
     (306, 310, 2, 1), (313, 327, 2, 1), (330, 374, 2, 1), (376, 376, 1, - 121),
     (377, 381, 2, 1), (385, 385, 1, 210), (386, 388, 2, 1), (390, 390, 1, 206),
     (391, 391, 1, 1), (393, 394, 1, 205), (395, 395, 1, 1), (398, 398, 1, 79),
     (399, 399, 1, 202), (400, 400, 1, 203), (401, 401, 1, 1), (403, 403, 1, 205),
     (404, 404, 1, 207), (406, 406, 1, 211), (407, 407, 1, 209), (408, 408, 1, 1),
     (412, 412, 1, 211), (413, 413, 1, 213), (415, 415, 1, 214), (416, 420, 2, 1),
     (422, 422, 1, 218), (423, 423, 1, 1), (425, 425, 1, 218), (428, 428, 1, 1),
     (430, 430, 1, 218), (431, 431, 1, 1), (433, 434, 1, 217), (435, 437, 2, 1),
     (439, 439, 1, 219), (440, 440, 1, 1), (444, 444, 1, 1), (452, 452, 1, 2), (453, 453, 1, 1),
     (455, 455, 1, 2), (456, 456, 1, 1), (458, 458, 1, 2), (459, 475, 2, 1), (478, 494, 2, 1),
     (497, 497, 1, 2), (498, 500, 2, 1), (502, 502, 1, - 97), (503, 503, 1, - 56),
     (504, 542, 2, 1), (544, 544, 1, - 130), (546, 562, 2, 1), (570, 570, 1, 10795),
     (571, 571, 1, 1), (573, 573, 1, - 163), (574, 574, 1, 10792), (577, 577, 1, 1),
     (579, 579, 1, - 195), (580, 580, 1, 69), (581, 581, 1, 71), (582, 590, 2, 1),
     (880, 882, 2, 1), (886, 886, 1, 1), (895, 895, 1, 116), (902, 902, 1, 38),
     (904, 906, 1, 37), (908, 908, 1, 64), (910, 911, 1, 63), (913, 929, 1, 32),
     (931, 939, 1, 32), (975, 975, 1, 8), (984, 1006, 2, 1), (1012, 1012, 1, - 60),
     (1015, 1015, 1, 1), (1017, 1017, 1, - 7), (1018, 1018, 1, 1), (1021, 1023, 1, - 130),
     (1024, 1039, 1, 80), (1040, 1071, 1, 32), (1120, 1152, 2, 1), (1162, 1214, 2, 1),
     (1216, 1216, 1, 15), (1217, 1229, 2, 1), (1232, 1326, 2, 1), (1329, 1366, 1, 48),
     (4256, 4293, 1, 7264), (4295, 4295, 1, 7264), (4301, 4301, 1, 7264), (5024, 5103, 1, 38864),
     (5104, 5109, 1, 8), (7312, 7354, 1, - 3008), (7357, 7359, 1, - 3008), (7680, 7828, 2, 1),
     (7838, 7838, 1, - 7615), (7840, 7934, 2, 1), (7944, 7951, 1, - 8), (7960, 7965, 1, - 8),
     (7976, 7983, 1, - 8), (7992, 7999, 1, - 8), (8008, 8013, 1, - 8), (8025, 8031, 2, - 8),
     (8040, 8047, 1, - 8), (8072, 8079, 1, - 8), (8088, 8095, 1, - 8), (8104, 8111, 1, - 8),
     (8120, 8121, 1, - 8), (8122, 8123, 1, - 74), (8124, 8124, 1, - 9), (8136, 8139, 1, - 86),
     (8140, 8140, 1, - 9), (8152, 8153, 1, - 8), (8154, 8155, 1, - 100), (8168, 8169, 1, - 8),
     (8170, 8171, 1, - 112), (8172, 8172, 1, - 7), (8184, 8185, 1, - 128),
     (8186, 8187, 1, - 126), (8188, 8188, 1, - 9), (8486, 8486, 1, - 7517),
     (8490, 8490, 1, - 8383), (8491, 8491, 1, - 8262), (8498, 8498, 1, 28), (8544, 8559, 1, 16),
     (8579, 8579, 1, 1), (9398, 9423, 1, 26), (11264, 11311, 1, 48), (11360, 11360, 1, 1),
     (11362, 11362, 1, - 10743), (11363, 11363, 1, - 3814), (11364, 11364, 1, - 10727),
     (11367, 11371, 2, 1), (11373, 11373, 1, - 10780), (11374, 11374, 1, - 10749),
     (11375, 11375, 1, - 10783), (11376, 11376, 1, - 10782), (11378, 11378, 1, 1),
     (11381, 11381, 1, 1), (11390, 11391, 1, - 10815), (11392, 11490, 2, 1),
     (11499, 11501, 2, 1), (11506, 11506, 1, 1), (42560, 42604, 2, 1), (42624, 42650, 2, 1),
     (42786, 42798, 2, 1), (42802, 42862, 2, 1), (42873, 42875, 2, 1),
     (42877, 42877, 1, - 35332), (42878, 42886, 2, 1), (42891, 42891, 1, 1),
     (42893, 42893, 1, - 42280), (42896, 42898, 2, 1), (42902, 42920, 2, 1),
     (42922, 42922, 1, - 42308), (42923, 42923, 1, - 42319), (42924, 42924, 1, - 42315),
     (42925, 42925, 1, - 42305), (42926, 42926, 1, - 42308), (42928, 42928, 1, - 42258),
     (42929, 42929, 1, - 42282), (42930, 42930, 1, - 42261), (42931, 42931, 1, 928),
     (42932, 42946, 2, 1), (42948, 42948, 1, - 48), (42949, 42949, 1, - 42307),
     (42950, 42950, 1, - 35384), (42951, 42953, 2, 1), (42960, 42960, 1, 1),
     (42966, 42968, 2, 1), (42997, 42997, 1, 1), (65313, 65338, 1, 32), (66560, 66599, 1, 40),
     (66736, 66771, 1, 40), (66928, 66938, 1, 39), (66940, 66954, 1, 39), (66956, 66962, 1, 39),
     (66964, 66965, 1, 39), (68736, 68786, 1, 64), (71840, 71871, 1, 32), (93760, 93791, 1, 32),
     (125184, 125217, 1, 34)]"

definition upperRanges :: "(nat \<times> nat \<times> nat \<times> int) list" where
  "upperRanges =
    [(181, 181, 1, 743), (224, 246, 1, - 32), (248, 254, 1, - 32), (255, 255, 1, 121),
     (257, 303, 2, - 1), (305, 305, 1, - 232), (307, 311, 2, - 1), (314, 328, 2, - 1),
     (331, 375, 2, - 1), (378, 382, 2, - 1), (383, 383, 1, - 300), (384, 384, 1, 195),
     (387, 389, 2, - 1), (392, 392, 1, - 1), (396, 396, 1, - 1), (402, 402, 1, - 1),
     (405, 405, 1, 97), (409, 409, 1, - 1), (410, 410, 1, 163), (414, 414, 1, 130),
     (417, 421, 2, - 1), (424, 424, 1, - 1), (429, 429, 1, - 1), (432, 432, 1, - 1),
     (436, 438, 2, - 1), (441, 441, 1, - 1), (445, 445, 1, - 1), (447, 447, 1, 56),
     (453, 453, 1, - 1), (454, 454, 1, - 2), (456, 456, 1, - 1), (457, 457, 1, - 2),
     (459, 459, 1, - 1), (460, 460, 1, - 2), (462, 476, 2, - 1), (477, 477, 1, - 79),
     (479, 495, 2, - 1), (498, 498, 1, - 1), (499, 499, 1, - 2), (501, 501, 1, - 1),
     (505, 543, 2, - 1), (547, 563, 2, - 1), (572, 572, 1, - 1), (575, 576, 1, 10815),
     (578, 578, 1, - 1), (583, 591, 2, - 1), (592, 592, 1, 10783), (593, 593, 1, 10780),
     (594, 594, 1, 10782), (595, 595, 1, - 210), (596, 596, 1, - 206), (598, 599, 1, - 205),
     (601, 601, 1, - 202), (603, 603, 1, - 203), (604, 604, 1, 42319), (608, 608, 1, - 205),
     (609, 609, 1, 42315), (611, 611, 1, - 207), (613, 613, 1, 42280), (614, 614, 1, 42308),
     (616, 616, 1, - 209), (617, 617, 1, - 211), (618, 618, 1, 42308), (619, 619, 1, 10743),
     (620, 620, 1, 42305), (623, 623, 1, - 211), (625, 625, 1, 10749), (626, 626, 1, - 213),
     (629, 629, 1, - 214), (637, 637, 1, 10727), (640, 640, 1, - 218), (642, 642, 1, 42307),
     (643, 643, 1, - 218), (647, 647, 1, 42282), (648, 648, 1, - 218), (649, 649, 1, - 69),
     (650, 651, 1, - 217), (652, 652, 1, - 71), (658, 658, 1, - 219), (669, 669, 1, 42261),
     (670, 670, 1, 42258), (837, 837, 1, 84), (881, 883, 2, - 1), (887, 887, 1, - 1),
     (891, 893, 1, 130), (940, 940, 1, - 38), (941, 943, 1, - 37), (945, 961, 1, - 32),
     (962, 962, 1, - 31), (963, 971, 1, - 32), (972, 972, 1, - 64), (973, 974, 1, - 63),
     (976, 976, 1, - 62), (977, 977, 1, - 57), (981, 981, 1, - 47), (982, 982, 1, - 54),
     (983, 983, 1, - 8), (985, 1007, 2, - 1), (1008, 1008, 1, - 86), (1009, 1009, 1, - 80),
     (1010, 1010, 1, 7), (1011, 1011, 1, - 116), (1013, 1013, 1, - 96), (1016, 1016, 1, - 1),
     (1019, 1019, 1, - 1), (1072, 1103, 1, - 32), (1104, 1119, 1, - 80), (1121, 1153, 2, - 1),
     (1163, 1215, 2, - 1), (1218, 1230, 2, - 1), (1231, 1231, 1, - 15), (1233, 1327, 2, - 1),
     (1377, 1414, 1, - 48), (4304, 4346, 1, 3008), (4349, 4351, 1, 3008), (5112, 5117, 1, - 8),
     (7296, 7296, 1, - 6254), (7297, 7297, 1, - 6253), (7298, 7298, 1, - 6244),
     (7299, 7300, 1, - 6242), (7301, 7301, 1, - 6243), (7302, 7302, 1, - 6236),
     (7303, 7303, 1, - 6181), (7304, 7304, 1, 35266), (7545, 7545, 1, 35332),
     (7549, 7549, 1, 3814), (7566, 7566, 1, 35384), (7681, 7829, 2, - 1), (7835, 7835, 1, - 59),
     (7841, 7935, 2, - 1), (7936, 7943, 1, 8), (7952, 7957, 1, 8), (7968, 7975, 1, 8),
     (7984, 7991, 1, 8), (8000, 8005, 1, 8), (8017, 8023, 2, 8), (8032, 8039, 1, 8),
     (8048, 8049, 1, 74), (8050, 8053, 1, 86), (8054, 8055, 1, 100), (8056, 8057, 1, 128),
     (8058, 8059, 1, 112), (8060, 8061, 1, 126), (8064, 8071, 1, 8), (8080, 8087, 1, 8),
     (8096, 8103, 1, 8), (8112, 8113, 1, 8), (8115, 8115, 1, 9), (8126, 8126, 1, - 7205),
     (8131, 8131, 1, 9), (8144, 8145, 1, 8), (8160, 8161, 1, 8), (8165, 8165, 1, 7),
     (8179, 8179, 1, 9), (8526, 8526, 1, - 28), (8560, 8575, 1, - 16), (8580, 8580, 1, - 1),
     (9424, 9449, 1, - 26), (11312, 11359, 1, - 48), (11361, 11361, 1, - 1),
     (11365, 11365, 1, - 10795), (11366, 11366, 1, - 10792), (11368, 11372, 2, - 1),
     (11379, 11379, 1, - 1), (11382, 11382, 1, - 1), (11393, 11491, 2, - 1),
     (11500, 11502, 2, - 1), (11507, 11507, 1, - 1), (11520, 11557, 1, - 7264),
     (11559, 11559, 1, - 7264), (11565, 11565, 1, - 7264), (42561, 42605, 2, - 1),
     (42625, 42651, 2, - 1), (42787, 42799, 2, - 1), (42803, 42863, 2, - 1),
     (42874, 42876, 2, - 1), (42879, 42887, 2, - 1), (42892, 42892, 1, - 1),
     (42897, 42899, 2, - 1), (42900, 42900, 1, 48), (42903, 42921, 2, - 1),
     (42933, 42947, 2, - 1), (42952, 42954, 2, - 1), (42961, 42961, 1, - 1),
     (42967, 42969, 2, - 1), (42998, 42998, 1, - 1), (43859, 43859, 1, - 928),
     (43888, 43967, 1, - 38864), (65345, 65370, 1, - 32), (66600, 66639, 1, - 40),
     (66776, 66811, 1, - 40), (66967, 66977, 1, - 39), (66979, 66993, 1, - 39),
     (66995, 67001, 1, - 39), (67003, 67004, 1, - 39), (68800, 68850, 1, - 64),
     (71872, 71903, 1, - 32), (93792, 93823, 1, - 32), (125218, 125251, 1, - 34)]"

fun caseLookup :: "(nat \<times> nat \<times> nat \<times> int) list \<Rightarrow> nat \<Rightarrow> nat" where
  "caseLookup [] r = r"
| "caseLookup ((lo, hi, stride, delta) # t) r =
     (if lo \<le> r \<and> r \<le> hi \<and> (r - lo) mod stride = 0 then nat (int r + delta) else caseLookup t r)"

definition unicode_ToLower :: "nat \<Rightarrow> nat" where
  "unicode_ToLower r =
     (if r < 128 then (if 65 \<le> r \<and> r \<le> 90 then r + 32 else r) else caseLookup lowerRanges r)"

definition unicode_ToUpper :: "nat \<Rightarrow> nat" where
  "unicode_ToUpper r =
     (if r < 128 then (if 97 \<le> r \<and> r \<le> 122 then r - 32 else r) else caseLookup upperRanges r)"

definition lower :: "char \<Rightarrow> char" where
  \<comment> \<open>\<open>'A'..'Z'\<close> to \<open>'a'..'z'\<close>, every other byte unchanged\<close>
  "lower c = (let n = byte c in if 65 \<le> n \<and> n \<le> 90 then char_of (n + 32) else c)"

definition upper :: "char \<Rightarrow> char" where
  \<comment> \<open>\<open>'a'..'z'\<close> to \<open>'A'..'Z'\<close>, every other byte unchanged\<close>
  "upper c = (let n = byte c in if 97 \<le> n \<and> n \<le> 122 then char_of (n - 32) else c)"

definition isASCII :: "string \<Rightarrow> bool" where
  "isASCII s = list_all (\<lambda>c. byte c < 128) s"

definition ToLower :: "string \<Rightarrow> string" where
  \<comment> \<open>\<open>strings.ToLower\<close>: bytewise on a string of ASCII characters, \<open>Map(unicode.ToLower, s)\<close>
      on any other string\<close>
  "ToLower s = (if isASCII s then map lower s else Map unicode_ToLower s)"

definition ToUpper :: "string \<Rightarrow> string" where
  \<comment> \<open>\<open>strings.ToUpper\<close>: bytewise on a string of ASCII characters, \<open>Map(unicode.ToUpper, s)\<close>
      on any other string\<close>
  "ToUpper s = (if isASCII s then map upper s else Map unicode_ToUpper s)"

section \<open>Numbers (package strconv)\<close>

datatype numerr = ErrSyntax | ErrRange

definition isDigit :: "char \<Rightarrow> bool" where
  "isDigit c = (48 \<le> byte c \<and> byte c \<le> 57)"

definition digitVal :: "char \<Rightarrow> nat" where
  "digitVal c = byte c - 48"

text \<open>
  \<open>strconv.ParseUint(s, 10, 64)\<close>. The loop works on a \<open>uint64\<close>: \<open>cutoff\<close> is
  \<open>maxUint64/10 + 1\<close>, the product and the sum wrap modulo \<open>2^64\<close>, and the wrapped sum
  is compared with the value before the addition, as the source does. In base 10 a byte
  that is not a decimal digit is a syntax error (a letter is a digit value \<open>\<ge> 10\<close>, which
  the source rejects as well).
\<close>

definition maxUint64 :: nat where
  "maxUint64 = 2 ^ 64 - 1"

fun ParseUint_loop :: "nat \<Rightarrow> string \<Rightarrow> numerr + nat" where
  "ParseUint_loop n [] = Inr n"
| "ParseUint_loop n (c # cs) =
     (if \<not> isDigit c then Inl ErrSyntax
      else if n \<ge> maxUint64 div 10 + 1 then Inl ErrRange
      else let n' = (n * 10) mod 2 ^ 64; n1 = (n' + digitVal c) mod 2 ^ 64 in
        if n1 < n' \<or> n1 > maxUint64 then Inl ErrRange
        else ParseUint_loop n1 cs)"

definition ParseUint :: "string \<Rightarrow> numerr + nat" where
  "ParseUint s = (if s = [] then Inl ErrSyntax else ParseUint_loop 0 s)"

text \<open>
  \<open>strconv.ParseInt(s, 10, 64)\<close>: an optional sign, then \<open>ParseUint\<close>; a range error of
  \<open>ParseUint\<close> comes with the value \<open>maxUint64\<close> and runs into the range check below.
\<close>

definition ParseInt :: "string \<Rightarrow> numerr + int" where
  "ParseInt s =
     (case s of
        [] \<Rightarrow> Inl ErrSyntax
      | c # cs \<Rightarrow>
          (let neg = (c = CHR ''-'');
               s' = (if c = CHR ''+'' \<or> c = CHR ''-'' then cs else s)
           in case ParseUint s' of
                Inl ErrSyntax \<Rightarrow> Inl ErrSyntax
              | r \<Rightarrow>
                  (let un = (case r of Inr n \<Rightarrow> n | Inl _ \<Rightarrow> maxUint64);
                       cutoff = (2::nat) ^ 63
                   in if \<not> neg \<and> un \<ge> cutoff then Inl ErrRange
                      else if neg \<and> un > cutoff then Inl ErrRange
                      else Inr (if neg then - int un else int un))))"

text \<open>
  \<open>strconv.Atoi\<close> where \<open>int\<close> has 64 bits: the fast path for strings of 1 to 18 bytes,
  \<open>ParseInt(s, 10, 0)\<close> otherwise. In the fast path \<open>ch -= '0'\<close> is a byte subtraction.
\<close>

fun Atoi_loop :: "nat \<Rightarrow> string \<Rightarrow> nat option" where
  "Atoi_loop n [] = Some n"
| "Atoi_loop n (ch # cs) =
     (let d = (byte ch + 256 - 48) mod 256 in
        if d > 9 then None else Atoi_loop (n * 10 + d) cs)"

definition Atoi :: "string \<Rightarrow> numerr + int" where
  "Atoi s =
     (case s of
        [] \<Rightarrow> ParseInt s
      | c # cs \<Rightarrow>
          if length s < 19 then
            (let signed = (c = CHR ''-'' \<or> c = CHR ''+'');
                 s' = (if signed then cs else s)
             in if signed \<and> length s' < 1 then Inl ErrSyntax
                else case Atoi_loop 0 s' of
                       None \<Rightarrow> Inl ErrSyntax
                     | Some n \<Rightarrow> Inr (if c = CHR ''-'' then - int n else int n))
          else ParseInt s)"

text \<open>
  \<open>strconv.FormatInt(i, 10)\<close>, the decimal rendering of an integer: a minus sign for a
  negative number, then the digits, most significant first.
\<close>

fun digits_rev :: "nat \<Rightarrow> string" where
  "digits_rev n =
     (if n < 10 then [char_of (48 + n)]
      else char_of (48 + n mod 10) # digits_rev (n div 10))"

definition FormatUint :: "nat \<Rightarrow> string" where
  "FormatUint n = rev (digits_rev n)"

definition FormatInt :: "int \<Rightarrow> string" where
  "FormatInt i = (if i < 0 then CHR ''-'' # FormatUint (nat (- i)) else FormatUint (nat i))"

text \<open>
  \<open>strconv.ParseFloat(s, 64)\<close>. A \<open>float64\<close> is kept exactly: \<open>Finite neg m e\<close> is
  \<open>(-1)^neg * m * 2^e\<close> with \<open>m < 2^53\<close> and \<open>-1074 \<le> e \<le> 971\<close> (\<open>m \<ge> 2^52\<close> unless
  \<open>e = -1074\<close>). ParseFloat accepts the special names, decimal and hexadecimal
  floating-point syntax with underscores between digits, and returns the nearest
  \<open>float64\<close> (ties to even); a value that rounds beyond the largest \<open>float64\<close> is a range
  error. The syntax is read as \<open>readFloat\<close> reads it, the value is the exact value of the
  digits, correctly rounded.
\<close>

datatype float64 = Finite bool nat int | Inf bool | NaN

definition orLower :: "char \<Rightarrow> char" where
  \<comment> \<open>strconv's \<open>lower(c) = c | ('x' - 'X')\<close>\<close>
  "orLower c = (if (byte c div 32) mod 2 = 0 then char_of (byte c + 32) else c)"

definition isHexLetter :: "char \<Rightarrow> bool" where
  "isHexLetter c = (97 \<le> byte (orLower c) \<and> byte (orLower c) \<le> 102)"

fun commonPrefixLenIgnoreCase :: "string \<Rightarrow> string \<Rightarrow> nat" where
  "commonPrefixLenIgnoreCase (c # s) (p # ps) =
     (if lower c = p then Suc (commonPrefixLenIgnoreCase s ps) else 0)"
| "commonPrefixLenIgnoreCase _ _ = 0"

definition infLen :: "string \<Rightarrow> nat" where
  "infLen s = (let n = commonPrefixLenIgnoreCase s ''infinity'' in if 3 < n \<and> n < 8 then 3 else n)"

definition special :: "string \<Rightarrow> (float64 \<times> nat) option" where
  "special s =
     (case s of
        [] \<Rightarrow> None
      | c # cs \<Rightarrow>
          if c = CHR ''+'' \<or> c = CHR ''-'' then
            (if infLen cs = 3 \<or> infLen cs = 8 then Some (Inf (c = CHR ''-''), 1 + infLen cs) else None)
          else if c = CHR ''i'' \<or> c = CHR ''I'' then
            (if infLen s = 3 \<or> infLen s = 8 then Some (Inf False, infLen s) else None)
          else if c = CHR ''n'' \<or> c = CHR ''N'' then
            (if commonPrefixLenIgnoreCase s ''nan'' = 3 then Some (NaN, 3) else None)
          else None)"

text \<open>
  The mantissa loop of \<open>readFloat\<close>. The state is \<open>(sawdot, sawdigits, nd, dp, mantissa,
  underscores)\<close>; the mantissa collects every digit (the source keeps 19 of them and a
  \<open>trunc\<close> flag, and rounds from the full digit string when the flag is set).
\<close>

type_synonym mant_state = "bool \<times> bool \<times> nat \<times> int \<times> nat \<times> bool"

fun readMantissa :: "bool \<Rightarrow> mant_state \<Rightarrow> string \<Rightarrow> mant_state \<times> string" where
  "readMantissa hex st [] = (st, [])"
| "readMantissa hex (sawdot, sawdigits, nd, dp, mant, us) (c # cs) =
     (if c = CHR ''_'' then readMantissa hex (sawdot, sawdigits, nd, dp, mant, True) cs
      else if c = CHR ''.'' then
        (if sawdot then ((sawdot, sawdigits, nd, dp, mant, us), c # cs)
         else readMantissa hex (True, sawdigits, nd, int nd, mant, us) cs)
      else if isDigit c then
        (if c = CHR ''0'' \<and> nd = 0 then readMantissa hex (sawdot, True, nd, dp - 1, mant, us) cs
         else readMantissa hex
                (sawdot, True, nd + 1, dp, mant * (if hex then 16 else 10) + digitVal c, us) cs)
      else if hex \<and> isHexLetter c then
        readMantissa hex (sawdot, True, nd + 1, dp, mant * 16 + (byte (orLower c) - 97 + 10), us) cs
      else ((sawdot, sawdigits, nd, dp, mant, us), c # cs))"

fun readExponent :: "nat \<Rightarrow> bool \<Rightarrow> string \<Rightarrow> nat \<times> bool \<times> string" where
  "readExponent e us [] = (e, us, [])"
| "readExponent e us (c # cs) =
     (if isDigit c then readExponent (if e < 10000 then e * 10 + digitVal c else e) us cs
      else if c = CHR ''_'' then readExponent e True cs
      else (e, us, c # cs))"

fun underscoreOK_loop :: "bool \<Rightarrow> char \<Rightarrow> string \<Rightarrow> bool" where
  "underscoreOK_loop hex saw [] = (saw \<noteq> CHR ''_'')"
| "underscoreOK_loop hex saw (c # cs) =
     (if isDigit c \<or> (hex \<and> isHexLetter c) then underscoreOK_loop hex (CHR ''0'') cs
      else if c = CHR ''_'' then
        (if saw \<noteq> CHR ''0'' then False else underscoreOK_loop hex (CHR ''_'') cs)
      else if saw = CHR ''_'' then False
      else underscoreOK_loop hex (CHR ''!'') cs)"

definition underscoreOK :: "string \<Rightarrow> bool" where
  "underscoreOK s =
     (let s1 = (case s of c # cs \<Rightarrow> if c = CHR ''-'' \<or> c = CHR ''+'' then cs else s | [] \<Rightarrow> s)
      in case s1 of
           c0 # c1 # r \<Rightarrow>
             if c0 = CHR ''0'' \<and> (orLower c1 = CHR ''b'' \<or> orLower c1 = CHR ''o'' \<or> orLower c1 = CHR ''x'')
             then underscoreOK_loop (orLower c1 = CHR ''x'') (CHR ''0'') r
             else underscoreOK_loop False (CHR ''^'') s1
         | _ \<Rightarrow> underscoreOK_loop False (CHR ''^'') s1)"

text \<open>
  \<open>readFloat\<close>: \<open>Some (neg, hex, mantissa, exp, rest)\<close> when the prefix read is well formed;
  the value read is \<open>mantissa * 10^exp\<close>, or \<open>mantissa * 2^exp\<close> when \<open>hex\<close>.
\<close>

definition readFloat :: "string \<Rightarrow> (bool \<times> bool \<times> nat \<times> int \<times> string) option" where
  "readFloat s =
     (case s of
        [] \<Rightarrow> None
      | c # cs \<Rightarrow>
          (let neg = (c = CHR ''-'');
               s1 = (if c = CHR ''+'' \<or> c = CHR ''-'' then cs else s);
               hex = (length s1 > 2 \<and> hd s1 = CHR ''0'' \<and> orLower (hd (tl s1)) = CHR ''x'');
               s2 = (if hex then drop 2 s1 else s1);
               ((sawdot, sawdigits, nd, dp, mant, us), r) =
                  readMantissa hex (False, False, 0, 0, 0, False) s2
           in if \<not> sawdigits then None
              else
                (let dp1 = (if sawdot then dp else int nd);
                     dp2 = (if hex then dp1 * 4 else dp1);
                     ndMant = (if hex then int nd * 4 else int nd);
                     expChar = (if hex then CHR ''p'' else CHR ''e'')
                 in case r of
                      [] \<Rightarrow>
                        if hex then None
                        else if us \<and> \<not> underscoreOK s then None
                        else Some (neg, hex, mant, (if mant \<noteq> 0 then dp2 - ndMant else 0), [])
                    | x # xs \<Rightarrow>
                        if orLower x = expChar then
                          (case xs of
                             [] \<Rightarrow> None
                           | y # ys \<Rightarrow>
                               (let esign = (if y = CHR ''-'' then - 1 else (1::int));
                                    r2 = (if y = CHR ''+'' \<or> y = CHR ''-'' then ys else xs)
                                in if r2 = [] \<or> \<not> isDigit (hd r2) then None
                                   else
                                     (let (e, us2, r3) = readExponent 0 us r2;
                                          dp3 = dp2 + int e * esign;
                                          consumed = take (length s - length r3) s
                                      in if us2 \<and> \<not> underscoreOK consumed then None
                                         else Some (neg, hex, mant,
                                                    (if mant \<noteq> 0 then dp3 - ndMant else 0), r3))))
                        else if hex then None
                        else if us \<and> \<not> underscoreOK (take (length s - length r) s) then None
                        else Some (neg, hex, mant, (if mant \<noteq> 0 then dp2 - ndMant else 0), r))))"

fun bitlen :: "nat \<Rightarrow> nat" where
  "bitlen n = (if n = 0 then 0 else Suc (bitlen (n div 2)))"

definition floorLog2 :: "nat \<Rightarrow> nat \<Rightarrow> int" where
  \<comment> \<open>the largest \<open>k\<close> with \<open>2^k \<le> n / d\<close>, for positive \<open>n\<close> and \<open>d\<close>\<close>
  "floorLog2 n d =
     (let k = int (bitlen n) - int (bitlen d) in
        if (if k \<ge> 0 then d * 2 ^ nat k \<le> n else d \<le> n * 2 ^ nat (- k)) then k else k - 1)"

definition roundFloat64 :: "bool \<Rightarrow> nat \<Rightarrow> nat \<Rightarrow> numerr + float64" where
  \<comment> \<open>the \<open>float64\<close> nearest to \<open>n / d\<close> (\<open>n, d > 0\<close>), ties to even\<close>
  "roundFloat64 neg n d =
     (let e = max (floorLog2 n d - 52) (- 1074);
          num = (if e \<ge> 0 then n else n * 2 ^ nat (- e));
          den = (if e \<ge> 0 then d * 2 ^ nat e else d);
          m0 = num div den;
          r = num mod den;
          m = (if 2 * r > den \<or> (2 * r = den \<and> odd m0) then m0 + 1 else m0);
          m' = (if m = 2 ^ 53 then 2 ^ 52 else m);
          e' = (if m = 2 ^ 53 then e + 1 else e)
      in if e' > 971 then Inl ErrRange else Inr (Finite neg m' e'))"

definition ParseFloat :: "string \<Rightarrow> numerr + float64" where
  "ParseFloat s =
     (case special s of
        Some (f, n) \<Rightarrow> if n = length s then Inr f else Inl ErrSyntax
      | None \<Rightarrow>
          (case readFloat s of
             None \<Rightarrow> Inl ErrSyntax
           | Some (neg, hex, mant, ex, rest) \<Rightarrow>
               if rest \<noteq> [] then Inl ErrSyntax
               else if mant = 0 then Inr (Finite neg 0 (- 1074))
               else
                 (let b = (if hex then 2 else (10::nat)) in
                    if ex \<ge> 0 then roundFloat64 neg (mant * b ^ nat ex) 1
                    else roundFloat64 neg mant (b ^ nat (- ex)))))"

section \<open>Regular expressions (package regexp)\<close>

text \<open>
  The patterns of the parsers use classes of single characters, concatenation,
  alternation, greedy repetition, capture groups and the anchors \<open>^\<close> and \<open>$\<close>. Go's
  regexp returns the match a backtracking search would find first (leftmost, then by
  the priority of the alternatives), so the matcher lists the matches of a pattern at a
  position in that order: for each, the rest of the text and the captures made so far.
  The patterns are read on bytes. Every class in them that can hold a byte of a
  character beyond ASCII stands under \<open>*\<close> or \<open>+\<close>, so this finds the same matches as
  reading UTF-8 characters.
\<close>

datatype re =
    Cls "char \<Rightarrow> bool"
  | Eps
  | Bol
  | Eol
  | Seq re re
  | Alt re re
  | Star re
  | Grp nat re

type_synonym caps = "(nat \<times> string) list"

text \<open>
  Greedy repetition of a step \<open>f\<close>: first every match that makes another round, then the
  match that stops here. A round that consumes nothing is not repeated; \<open>n\<close> bounds the
  rounds by the length of the text that is left.
\<close>

primrec star_iter ::
  "(string \<times> caps \<Rightarrow> (string \<times> caps) list) \<Rightarrow> nat \<Rightarrow> string \<times> caps \<Rightarrow> (string \<times> caps) list" where
  "star_iter f 0 x = [x]"
| "star_iter f (Suc n) x =
     concat (map (\<lambda>y. if length (fst y) < length (fst x) then star_iter f n y else []) (f x)) @ [x]"

primrec ms :: "string \<Rightarrow> re \<Rightarrow> string \<times> caps \<Rightarrow> (string \<times> caps) list" where
  "ms t (Cls P) x = (case fst x of [] \<Rightarrow> [] | c # cs \<Rightarrow> if P c then [(cs, snd x)] else [])"
| "ms t Eps x = [x]"
| "ms t Bol x = (if length (fst x) = length t then [x] else [])"
| "ms t Eol x = (if fst x = [] then [x] else [])"
| "ms t (Seq a b) x = concat (map (ms t b) (ms t a x))"
| "ms t (Alt a b) x = ms t a x @ ms t b x"
| "ms t (Star a) x = star_iter (ms t a) (length (fst x)) x"
| "ms t (Grp i a) x =
     map (\<lambda>y. (fst y, (i, take (length (fst x) - length (fst y)) (fst x)) # snd y)) (ms t a x)"

definition Chr :: "char \<Rightarrow> re" where
  "Chr c = Cls (\<lambda>x. x = c)"

definition Plus :: "re \<Rightarrow> re" where
  "Plus r = Seq r (Star r)"

definition Opt :: "re \<Rightarrow> re" where
  "Opt r = Alt r Eps"

fun Seqs :: "re list \<Rightarrow> re" where
  "Seqs [] = Eps"
| "Seqs [r] = r"
| "Seqs (r # rs) = Seq r (Seqs rs)"

fun Alts :: "re list \<Rightarrow> re" where
  "Alts [] = Eps"
| "Alts [r] = r"
| "Alts (r # rs) = Alt r (Alts rs)"

definition Lit :: "string \<Rightarrow> re" where
  "Lit s = Seqs (map Chr s)"

definition Rep :: "nat \<Rightarrow> re \<Rightarrow> re" where
  \<comment> \<open>\<open>r{n}\<close>\<close>
  "Rep n r = Seqs (replicate n r)"

text \<open>The Perl classes of RE2 are ASCII: \<open>\\d\<close>, \<open>\\w\<close>, \<open>\\s\<close>; \<open>.\<close> is any character but newline.\<close>

definition isWord :: "char \<Rightarrow> bool" where
  "isWord c = (let n = byte c in (48 \<le> n \<and> n \<le> 57) \<or> (65 \<le> n \<and> n \<le> 90) \<or> n = 95 \<or> (97 \<le> n \<and> n \<le> 122))"

definition isSpace :: "char \<Rightarrow> bool" where
  \<comment> \<open>\<open>\\s\<close> is \<open>[\\t\\n\\f\\r ]\<close>\<close>
  "isSpace c = (let n = byte c in n = 9 \<or> n = 10 \<or> n = 12 \<or> n = 13 \<or> n = 32)"

definition notSpace :: "char \<Rightarrow> bool" where
  "notSpace c = (\<not> isSpace c)"

definition anyChar :: "char \<Rightarrow> bool" where
  "anyChar c = (byte c \<noteq> 10)"

definition noneOf :: "string \<Rightarrow> char \<Rightarrow> bool" where
  "noneOf s c = (c \<notin> set s)"

definition oneOf :: "string \<Rightarrow> char \<Rightarrow> bool" where
  "oneOf s c = (c \<in> set s)"

text \<open>
  A compiled expression, as far as the parsers use it: the names of its groups
  (\<open>SubexpNames\<close>, the entry of index 0 and of an unnamed group is the empty string)
  and the two searches. \<open>FindStringSubmatch\<close> is \<open>None\<close> for Go's \<open>nil\<close>; a group that
  took no part in the match is the empty string, and the list has one entry per name.
\<close>

record regexp =
  SubexpNames :: "string list"
  FindStringSubmatch :: "string \<Rightarrow> string list option"
  FindAllStringSubmatch :: "string \<Rightarrow> string list list"

definition MatchString :: "regexp \<Rightarrow> string \<Rightarrow> bool" where
  "MatchString r s = (FindStringSubmatch r s \<noteq> None)"

definition FindAllString :: "regexp \<Rightarrow> string \<Rightarrow> string list" where
  "FindAllString r s = map hd (FindAllStringSubmatch r s)"

text \<open>The search of the matcher: the first position, from the left, with a match.\<close>

fun search :: "re \<Rightarrow> string \<Rightarrow> string \<Rightarrow> (string \<times> string \<times> caps) option" where
  "search r t [] = (case ms t r ([], []) of [] \<Rightarrow> None | y # _ \<Rightarrow> Some ([], fst y, snd y))"
| "search r t (c # cs) =
     (case ms t r (c # cs, []) of
        [] \<Rightarrow> search r t cs
      | y # _ \<Rightarrow> Some (c # cs, fst y, snd y))"

definition group_text :: "caps \<Rightarrow> nat \<Rightarrow> string" where
  "group_text c i = (case map_of c i of None \<Rightarrow> [] | Some s \<Rightarrow> s)"

definition submatches :: "nat \<Rightarrow> string \<Rightarrow> string \<Rightarrow> caps \<Rightarrow> string list" where
  \<comment> \<open>the whole match, then the text of the groups \<open>1 .. n - 1\<close>\<close>
  "submatches n st en c = take (length st - length en) st # map (group_text c) [1 ..< n]"

definition find_submatch :: "re \<Rightarrow> nat \<Rightarrow> string \<Rightarrow> string list option" where
  "find_submatch r n s =
     (case search r s s of None \<Rightarrow> None | Some (st, en, c) \<Rightarrow> Some (submatches n st en c))"

text \<open>
  \<open>allMatches\<close> with \<open>n = -1\<close>: successive matches, each searched from the end of the one
  before; an empty match directly after a match is dropped. \<open>rest\<close> is the text from the
  current position, \<open>prev\<close> the length of the text that was left at the end of the match
  before.
\<close>

function find_all :: "re \<Rightarrow> nat \<Rightarrow> string \<Rightarrow> string \<Rightarrow> nat option \<Rightarrow> string list list" where
  "find_all r n t rest prev =
     (case search r t rest of
        None \<Rightarrow> []
      | Some (st, en, c) \<Rightarrow>
          if length en = length rest then
            (let out = (if prev = Some (length st) then [] else [submatches n st en c]) in
               if rest \<noteq> [] \<and> rune_width rest > 0
               then out @ find_all r n t (drop (rune_width rest) rest) (Some (length en))
               else out)
          else
            submatches n st en c #
              (if length en < length rest then find_all r n t en (Some (length en)) else []))"
  by pat_completeness auto
termination
  by (relation "measure (\<lambda>(r, n, t, rest, prev). length rest)") auto

definition MustCompile :: "re \<Rightarrow> string list \<Rightarrow> regexp" where
  \<comment> \<open>the compiled expression of a pattern, given as its syntax tree and the names of its groups\<close>
  "MustCompile r names =
     \<lparr> SubexpNames = names,
       FindStringSubmatch = find_submatch r (length names),
       FindAllStringSubmatch = (\<lambda>s. find_all r (length names) s s None) \<rparr>"

section \<open>Entries and the Parser interface (parser.go)\<close>

text \<open>
  Go's \<open>error\<close> values that reach an entry or a caller: the three package-level errors,
  the \<open>fmt.Errorf("unknown format: %s", ...)\<close> of the registry, an error of the JSON
  decoder (a syntax error or a type error), and whatever a parser registered from outside may return.
\<close>

datatype jsonerr = SyntaxError | UnmarshalTypeError

datatype goerr =
    ErrNoMatch
  | ErrEmptyLine
  | ErrInvalidData
  | ErrUnknownFormat string
  | ErrJSON jsonerr
  | ErrOther string

text \<open>
  The values a field can hold (\<open>any\<close>): Go's \<open>int\<close> (of \<open>Atoi\<close>), \<open>int64\<close>, \<open>float64\<close>,
  \<open>bool\<close>, \<open>string\<close>, and from the JSON decoder also \<open>nil\<close>, \<open>[]any\<close> and
  \<open>map[string]any\<close> (an association list, the first pair of a key counts).
  \<open>VErrText e\<close> is the string \<open>e.Error()\<close>.
\<close>

datatype val =
    VNil
  | VBool bool
  | VInt int
  | VInt64 int
  | VFloat float64
  | VStr string
  | VErrText goerr
  | VArr "val list"
  | VObj "(string \<times> val) list"

record Entry =
  Fields :: "string \<rightharpoonup> val"
  Raw :: string
  LineNum :: int
  ParseError :: "goerr option"

definition NewEntry :: "string \<Rightarrow> Entry" where
  "NewEntry raw = \<lparr> Fields = Map.empty, Raw = raw, LineNum = 0, ParseError = None \<rparr>"

text \<open>
  The interface \<open>Parser\<close>. \<open>Parse\<close> returns Go's pair \<open>(*Entry, error)\<close>: \<open>None\<close> is \<open>nil\<close>.
\<close>

record Parser =
  Name :: string
  Description :: string
  CanParse :: "string \<Rightarrow> bool"
  Parse :: "string \<Rightarrow> Entry option \<times> goerr option"

section \<open>The JSON decoder (package encoding/json)\<close>

text \<open>
  \<open>json.Unmarshal(data, &entry.Fields)\<close> first checks the whole input against the JSON
  grammar (a syntax error stores nothing), then decodes it. A number that is out of the
  range of \<open>float64\<close> is a type error: the decoder stores \<open>nil\<close> for it, goes on, and
  returns the error at the end. The functions below read a value and build it in one
  pass; the flag they return says whether such a number was met. Containers nest to a
  depth of 10000 at most.
\<close>

fun skip_ws :: "string \<Rightarrow> string" where
  "skip_ws [] = []"
| "skip_ws (c # cs) =
     (if byte c = 32 \<or> byte c = 9 \<or> byte c = 13 \<or> byte c = 10 then skip_ws cs else c # cs)"

definition isHex :: "char \<Rightarrow> bool" where
  "isHex c = (isDigit c \<or> (65 \<le> byte c \<and> byte c \<le> 70) \<or> (97 \<le> byte c \<and> byte c \<le> 102))"

definition hexVal :: "char \<Rightarrow> nat" where
  "hexVal c = (if isDigit c then byte c - 48 else if byte c \<le> 70 then byte c - 55 else byte c - 87)"

definition getu4 :: "char \<Rightarrow> char \<Rightarrow> char \<Rightarrow> char \<Rightarrow> nat" where
  "getu4 a b c d = ((hexVal a * 16 + hexVal b) * 16 + hexVal c) * 16 + hexVal d"

text \<open>
  The body of a string after its opening quote: \<open>unquote\<close>. An escape \<open>\\uXXXX\<close> that is
  a surrogate is joined with a following low surrogate, or becomes U+FFFD; a byte that
  starts no valid UTF-8 character becomes U+FFFD. The result is in \<open>acc\<close>, reversed.
\<close>

fun jstring :: "string \<Rightarrow> string \<Rightarrow> (string \<times> string) option" where
  "jstring acc [] = None"
| "jstring acc (c # cs) =
     (if c = CHR 0x22 then Some (rev acc, cs)
      else if byte c < 32 then None
      else if c = CHR 0x5C then
        (case cs of
           [] \<Rightarrow> None
         | e # r \<Rightarrow>
             if e = CHR 0x22 \<or> e = CHR 0x5C \<or> e = CHR ''/'' then jstring (e # acc) r
             else if e = CHR ''b'' then jstring (char_of (8::nat) # acc) r
             else if e = CHR ''f'' then jstring (char_of (12::nat) # acc) r
             else if e = CHR ''n'' then jstring (char_of (10::nat) # acc) r
             else if e = CHR ''r'' then jstring (char_of (13::nat) # acc) r
             else if e = CHR ''t'' then jstring (char_of (9::nat) # acc) r
             else if e = CHR ''u'' then
               (case r of
                  h1 # h2 # h3 # h4 # r1 \<Rightarrow>
                    if isHex h1 \<and> isHex h2 \<and> isHex h3 \<and> isHex h4 then
                      (let rr = getu4 h1 h2 h3 h4 in
                         if 55296 \<le> rr \<and> rr < 57344 then
                           (case r1 of
                              b # u # g1 # g2 # g3 # g4 # r2 \<Rightarrow>
                                if b = CHR 0x5C \<and> u = CHR ''u'' \<and> isHex g1 \<and> isHex g2 \<and> isHex g3 \<and> isHex g4
                                   \<and> rr < 56320 \<and> 56320 \<le> getu4 g1 g2 g3 g4 \<and> getu4 g1 g2 g3 g4 < 57344
                                then jstring
                                       (rev (EncodeRune ((rr - 55296) * 1024 + (getu4 g1 g2 g3 g4 - 56320) + 65536)) @ acc)
                                       r2
                                else jstring (rev (EncodeRune 65533) @ acc) r1
                            | _ \<Rightarrow> jstring (rev (EncodeRune 65533) @ acc) r1)
                         else jstring (rev (EncodeRune rr) @ acc) r1)
                    else None
                | _ \<Rightarrow> None)
             else None)
      else if byte c < 128 then jstring (c # acc) cs
      else if rune_width (c # cs) = 1 then jstring (rev (EncodeRune 65533) @ acc) cs
      else jstring (rev (take (rune_width (c # cs)) (c # cs)) @ acc) (drop (rune_width (c # cs) - 1) cs))"

text \<open>A number literal: \<open>-? (0 | [1-9][0-9]*) (. [0-9]+)? ([eE] [+-]? [0-9]+)?\<close>.\<close>

definition jnumber :: "string \<Rightarrow> (string \<times> string) option" where
  "jnumber s =
     (let sign = takeWhile (\<lambda>c. c = CHR ''-'') (take 1 s);
          s1 = drop (length sign) s
      in case s1 of
           [] \<Rightarrow> None
         | c # r \<Rightarrow>
             if \<not> isDigit c then None
             else
               (let ip = (if c = CHR ''0'' then [c] else c # takeWhile isDigit r);
                    r1 = drop (length ip) s1;
                    fr = (case r1 of
                            d # r2 \<Rightarrow> if d = CHR ''.'' then d # takeWhile isDigit r2 else []
                          | [] \<Rightarrow> []);
                    r3 = drop (length fr) r1;
                    ex = (case r3 of
                            e # r4 \<Rightarrow>
                              if e = CHR ''e'' \<or> e = CHR ''E'' then
                                (let sg = takeWhile (\<lambda>c. c = CHR ''+'' \<or> c = CHR ''-'') (take 1 r4)
                                 in e # sg @ takeWhile isDigit (drop (length sg) r4))
                              else []
                          | [] \<Rightarrow> []);
                    r5 = drop (length ex) r3
                in if length fr = 1 then None
                   else if ex \<noteq> [] \<and> \<not> isDigit (last ex) then None
                   else Some (sign @ ip @ fr @ ex, r5)))"

function jvalue :: "nat \<Rightarrow> string \<Rightarrow> (val \<times> bool \<times> string) option"
  and jmembers :: "nat \<Rightarrow> string \<Rightarrow> (string \<times> val) list \<Rightarrow> bool \<Rightarrow> (val \<times> bool \<times> string) option"
  and jelems :: "nat \<Rightarrow> string \<Rightarrow> val list \<Rightarrow> bool \<Rightarrow> (val \<times> bool \<times> string) option" where
  "jvalue d s =
     (case skip_ws s of
        [] \<Rightarrow> None
      | c # r \<Rightarrow>
          if c = CHR ''{'' then
            (if d \<ge> 10000 then None
             else case skip_ws r of
                    [] \<Rightarrow> None
                  | x # r' \<Rightarrow> if x = CHR ''}'' then Some (VObj [], False, r') else jmembers (d + 1) r [] False)
          else if c = CHR ''['' then
            (if d \<ge> 10000 then None
             else case skip_ws r of
                    [] \<Rightarrow> None
                  | x # r' \<Rightarrow> if x = CHR '']'' then Some (VArr [], False, r') else jelems (d + 1) r [] False)
          else if c = CHR 0x22 then
            (case jstring [] r of None \<Rightarrow> None | Some (str, r') \<Rightarrow> Some (VStr str, False, r'))
          else if c = CHR ''t'' then
            (if take 3 r = ''rue'' then Some (VBool True, False, drop 3 r) else None)
          else if c = CHR ''f'' then
            (if take 4 r = ''alse'' then Some (VBool False, False, drop 4 r) else None)
          else if c = CHR ''n'' then
            (if take 3 r = ''ull'' then Some (VNil, False, drop 3 r) else None)
          else if c = CHR ''-'' \<or> isDigit c then
            (case jnumber (c # r) of
               None \<Rightarrow> None
             | Some (lit, r') \<Rightarrow>
                 (case ParseFloat lit of
                    Inr f \<Rightarrow> Some (VFloat f, False, r')
                  | Inl _ \<Rightarrow> Some (VNil, True, r')))
          else None)"
| "jmembers d s acc err =
     (case skip_ws s of
        [] \<Rightarrow> None
      | q # r \<Rightarrow>
          if q \<noteq> CHR 0x22 then None
          else
            (case jstring [] r of
               None \<Rightarrow> None
             | Some (key, r1) \<Rightarrow>
                 (case skip_ws r1 of
                    [] \<Rightarrow> None
                  | colon # r2 \<Rightarrow>
                      if colon \<noteq> CHR '':'' \<or> \<not> length r2 < length s then None
                      else
                        (case jvalue d r2 of
                           None \<Rightarrow> None
                         | Some (v, e, r3) \<Rightarrow>
                             (case skip_ws r3 of
                                [] \<Rightarrow> None
                              | x # r4 \<Rightarrow>
                                  if x = CHR ''}'' then
                                    Some (VObj (filter (\<lambda>p. fst p \<noteq> key) acc @ [(key, v)]), err \<or> e, r4)
                                  else if x = CHR '','' \<and> length r4 < length s then
                                    jmembers d r4 (filter (\<lambda>p. fst p \<noteq> key) acc @ [(key, v)]) (err \<or> e)
                                  else None)))))"
| "jelems d s acc err =
     (case jvalue d s of
        None \<Rightarrow> None
      | Some (v, e, r1) \<Rightarrow>
          (case skip_ws r1 of
             [] \<Rightarrow> None
           | x # r2 \<Rightarrow>
               if x = CHR '']'' then Some (VArr (acc @ [v]), err \<or> e, r2)
               else if x = CHR '','' \<and> length r2 < length s then jelems d r2 (acc @ [v]) (err \<or> e)
               else None))"
  by pat_completeness auto
termination
proof (relation "measure (\<lambda>x. case x of
          Inl (d, s) \<Rightarrow> 2 * length s
        | Inr (Inl (d, s, acc, err)) \<Rightarrow> 2 * length s + 1
        | Inr (Inr (d, s, acc, err)) \<Rightarrow> 2 * length s + 1)", goal_cases)
  case 1
  show ?case by simp
next
  case (2 d s c r x r')
  have "length (skip_ws s) \<le> length s" by (induction s) auto
  with 2 show ?case by simp
next
  case (3 d s c r x r')
  have "length (skip_ws s) \<le> length s" by (induction s) auto
  with 3 show ?case by simp
qed auto

text \<open>
  \<open>json.Unmarshal\<close> into a non-nil \<open>map[string]any\<close>: an object stores its members (a key
  met again overwrites), \<open>null\<close> leaves the nil map (no field), any other value is a type
  error and stores nothing. The result is the map and the error returned.
\<close>

definition json_Unmarshal :: "string \<Rightarrow> (string \<rightharpoonup> val) \<Rightarrow> (string \<rightharpoonup> val) \<times> goerr option" where
  "json_Unmarshal data m =
     (case jvalue 0 data of
        None \<Rightarrow> (m, Some (ErrJSON SyntaxError))
      | Some (v, e, rest) \<Rightarrow>
          if skip_ws rest \<noteq> [] then (m, Some (ErrJSON SyntaxError))
          else
            (case v of
               VObj members \<Rightarrow>
                 (foldl (\<lambda>f kv. f(fst kv \<mapsto> snd kv)) m members,
                  if e then Some (ErrJSON UnmarshalTypeError) else None)
             | VNil \<Rightarrow>
                 if e then (m, Some (ErrJSON UnmarshalTypeError)) else (Map.empty, None)
             | _ \<Rightarrow> (m, Some (ErrJSON UnmarshalTypeError))))"

section \<open>Type inference (keyvalue\_parser.go)\<close>

definition inferType :: "string \<Rightarrow> val" where
  "inferType s =
     (case ParseInt s of
        Inr i \<Rightarrow> VInt64 i
      | Inl _ \<Rightarrow>
          (case ParseFloat s of
             Inr f \<Rightarrow> VFloat f
           | Inl _ \<Rightarrow>
               (let lower = ToLower s in
                  if lower = ''true'' then VBool True
                  else if lower = ''false'' then VBool False
                  else VStr s)))"

section \<open>The JSON parser (json\_parser.go)\<close>

definition JSONParser_CanParse :: "string \<Rightarrow> bool" where
  "JSONParser_CanParse line =
     (let trimmed = TrimSpace line in
        length trimmed \<ge> 2 \<and> hd trimmed = CHR ''{'' \<and> last trimmed = CHR ''}'')"

definition JSONParser_Parse :: "string \<Rightarrow> Entry option \<times> goerr option" where
  "JSONParser_Parse line =
     (let entry = NewEntry line in
        case json_Unmarshal line (Fields entry) of
          (m, None) \<Rightarrow> (Some (entry\<lparr>Fields := m\<rparr>), None)
        | (m, Some err) \<Rightarrow>
            (Some (entry\<lparr>ParseError := Some err,
                         Fields := m(''raw'' \<mapsto> VStr line, ''_parseError'' \<mapsto> VErrText err)\<rparr>),
             None))"

definition NewJSONParser :: Parser where
  "NewJSONParser =
     \<lparr> Name = ''json'',
       Description = ''JSON formatted logs (already structured)'',
       CanParse = JSONParser_CanParse,
       Parse = JSONParser_Parse \<rparr>"

section \<open>The key=value parser (keyvalue\_parser.go)\<close>

text \<open>
  The pattern \<open>(\\w+)=(?:"([^"]*)"|'([^']*)'|(\\S+))\<close>: four groups without a name.
\<close>

definition kv_re :: re where
  "kv_re =
     Seqs [Grp 1 (Plus (Cls isWord)), Chr (CHR ''=''),
           Alts [Seqs [Chr (CHR 0x22), Grp 2 (Star (Cls (noneOf [CHR 0x22]))), Chr (CHR 0x22)],
                 Seqs [Chr (CHR 0x27), Grp 3 (Star (Cls (noneOf [CHR 0x27]))), Chr (CHR 0x27)],
                 Grp 4 (Plus (Cls notSpace))]]"

definition kv_pattern :: regexp where
  "kv_pattern = MustCompile kv_re [[], [], [], [], []]"

definition KeyValueParser_CanParse :: "regexp \<Rightarrow> string \<Rightarrow> bool" where
  "KeyValueParser_CanParse p line = (length (FindAllString p line) \<ge> 2)"

text \<open>
  One round of the loop over the matches. A match of the pattern has five entries: the
  whole match, the key, and the three alternatives of the value.
\<close>

definition kv_value :: "string list \<Rightarrow> string" where
  "kv_value m =
     (case m of
        _ # _ # dq # sq # bare # _ \<Rightarrow> if dq \<noteq> [] then dq else if sq \<noteq> [] then sq else bare
      | _ \<Rightarrow> [])"

definition kv_key :: "string list \<Rightarrow> string" where
  "kv_key m = (case m of _ # k # _ \<Rightarrow> k | _ \<Rightarrow> [])"

definition kv_step :: "(string \<rightharpoonup> val) \<Rightarrow> string list \<Rightarrow> (string \<rightharpoonup> val)" where
  "kv_step fs m = fs(kv_key m \<mapsto> inferType (kv_value m))"

definition KeyValueParser_Parse :: "regexp \<Rightarrow> string \<Rightarrow> Entry option \<times> goerr option" where
  "KeyValueParser_Parse p line =
     (let entry = NewEntry line;
          matches = FindAllStringSubmatch p line
      in if length matches = 0 then
           (Some (entry\<lparr>ParseError := Some ErrNoMatch, Fields := (Fields entry)(''raw'' \<mapsto> VStr line)\<rparr>), None)
         else (Some (entry\<lparr>Fields := foldl kv_step (Fields entry) matches\<rparr>), None))"

definition NewKeyValueParser :: Parser where
  "NewKeyValueParser =
     \<lparr> Name = ''kv'',
       Description = ''Key=value format (logfmt style)'',
       CanParse = KeyValueParser_CanParse kv_pattern,
       Parse = KeyValueParser_Parse kv_pattern \<rparr>"

section \<open>The syslog parser (syslog\_parser.go)\<close>

definition digit :: re where
  "digit = Cls isDigit"

definition spaces1 :: re where
  \<comment> \<open>\<open>\\s+\<close>\<close>
  "spaces1 = Plus (Cls isSpace)"

definition hms :: re where
  \<comment> \<open>\<open>\\d{2}:\\d{2}:\\d{2}\<close>\<close>
  "hms = Seqs [Rep 2 digit, Chr (CHR '':''), Rep 2 digit, Chr (CHR '':''), Rep 2 digit]"

definition ymd :: re where
  \<comment> \<open>\<open>\\d{4}-\\d{2}-\\d{2}\<close>\<close>
  "ymd = Seqs [Rep 4 digit, Chr (CHR ''-''), Rep 2 digit, Chr (CHR ''-''), Rep 2 digit]"

definition fraction :: re where
  \<comment> \<open>\<open>(?:\\.\\d+)?\<close>\<close>
  "fraction = Opt (Seq (Chr (CHR ''.'')) (Plus digit))"

definition notSpaceBracketColon :: "char \<Rightarrow> bool" where
  \<comment> \<open>\<open>[^\\s\\[:]\<close>\<close>
  "notSpaceBracketColon c = (\<not> isSpace c \<and> c \<noteq> CHR ''['' \<and> c \<noteq> CHR '':'')"

definition syslog_re :: re where
  "syslog_re =
     Seqs [Bol,
           Grp 1 (Alt (Seqs [Rep 3 (Cls isWord), spaces1, digit, Opt digit, spaces1, hms])
                      (Seqs [ymd, Chr (CHR ''T''), hms, fraction,
                             Opt (Alt (Chr (CHR ''Z''))
                                      (Seqs [Cls (oneOf ''+-''), Rep 2 digit, Chr (CHR '':''), Rep 2 digit]))])),
           spaces1, Grp 2 (Plus (Cls notSpace)),
           spaces1, Grp 3 (Plus (Cls notSpaceBracketColon)),
           Opt (Seqs [Chr (CHR ''[''), Grp 4 (Plus digit), Chr (CHR '']'')]),
           Chr (CHR '':''), Star (Cls isSpace), Grp 5 (Star (Cls anyChar)), Eol]"

definition syslog_pattern :: regexp where
  "syslog_pattern = MustCompile syslog_re [[], ''timestamp'', ''host'', ''program'', ''pid'', ''message'']"

definition SyslogParser_CanParse :: "regexp \<Rightarrow> string \<Rightarrow> bool" where
  "SyslogParser_CanParse p line = MatchString p line"

text \<open>
  One round of the loop over the submatches, for the pair of the group's name and its
  text; the round of index 0 is skipped by the caller.
\<close>

definition syslog_step :: "(string \<rightharpoonup> val) \<Rightarrow> string \<times> string \<Rightarrow> (string \<rightharpoonup> val)" where
  "syslog_step fs nm =
     (let name = fst nm; match = snd nm in
        if name = [] \<or> match = [] then fs
        else if name = ''pid'' then
          (case Atoi match of
             Inr pid \<Rightarrow> fs(name \<mapsto> VInt pid)
           | Inl _ \<Rightarrow> fs(name \<mapsto> VStr match))
        else fs(name \<mapsto> VStr match))"

definition SyslogParser_Parse :: "regexp \<Rightarrow> string \<Rightarrow> Entry option \<times> goerr option" where
  "SyslogParser_Parse p line =
     (let entry = NewEntry line in
        case FindStringSubmatch p line of
          None \<Rightarrow>
            (Some (entry\<lparr>ParseError := Some ErrNoMatch, Fields := (Fields entry)(''raw'' \<mapsto> VStr line)\<rparr>), None)
        | Some matches \<Rightarrow>
            (Some (entry\<lparr>Fields := foldl syslog_step (Fields entry) (tl (zip (SubexpNames p) matches))\<rparr>),
             None))"

definition NewSyslogParser :: Parser where
  "NewSyslogParser =
     \<lparr> Name = ''syslog'',
       Description = ''Standard syslog format (RFC 3164/5424)'',
       CanParse = SyslogParser_CanParse syslog_pattern,
       Parse = SyslogParser_Parse syslog_pattern \<rparr>"

section \<open>The Apache parser (apache\_parser.go)\<close>

definition quoted :: "nat \<Rightarrow> re" where
  \<comment> \<open>\<open>"(?P<name>[^"]*)"\<close>\<close>
  "quoted i = Seqs [Chr (CHR 0x22), Grp i (Star (Cls (noneOf [CHR 0x22]))), Chr (CHR 0x22)]"

definition apache_re :: re where
  "apache_re =
     Seqs [Bol,
           Grp 1 (Plus (Cls notSpace)), spaces1,
           Grp 2 (Plus (Cls notSpace)), spaces1,
           Grp 3 (Plus (Cls notSpace)), spaces1,
           Chr (CHR ''[''), Grp 4 (Plus (Cls (noneOf '']''))), Chr (CHR '']''), spaces1,
           Chr (CHR 0x22), Grp 5 (Plus (Cls notSpace)), spaces1, Grp 6 (Plus (Cls notSpace)), spaces1,
           Grp 7 (Plus (Cls (noneOf [CHR 0x22]))), Chr (CHR 0x22), spaces1,
           Grp 8 (Plus digit), spaces1,
           Grp 9 (Plus (Cls notSpace)),
           Opt (Seqs [spaces1, quoted 10, spaces1, quoted 11])]"

definition apache_pattern :: regexp where
  "apache_pattern =
     MustCompile apache_re
       [[], ''ip'', ''ident'', ''user'', ''timestamp'', ''method'', ''path'', ''protocol'',
        ''status'', ''size'', ''referer'', ''useragent'']"

definition ApacheParser_CanParse :: "regexp \<Rightarrow> string \<Rightarrow> bool" where
  "ApacheParser_CanParse p line = MatchString p line"

definition apache_step :: "(string \<rightharpoonup> val) \<Rightarrow> string \<times> string \<Rightarrow> (string \<rightharpoonup> val)" where
  "apache_step fs nm =
     (let name = fst nm; match = snd nm in
        if name = [] \<or> match = [] \<or> match = ''-'' then fs
        else if name = ''status'' then
          (case Atoi match of
             Inr status \<Rightarrow> fs(name \<mapsto> VInt status)
           | Inl _ \<Rightarrow> fs(name \<mapsto> VStr match))
        else if name = ''size'' then
          (case ParseInt match of
             Inr sz \<Rightarrow> fs(name \<mapsto> VInt64 sz)
           | Inl _ \<Rightarrow> fs(name \<mapsto> VStr match))
        else fs(name \<mapsto> VStr match))"

definition ApacheParser_Parse :: "regexp \<Rightarrow> string \<Rightarrow> Entry option \<times> goerr option" where
  "ApacheParser_Parse p line =
     (let entry = NewEntry line in
        case FindStringSubmatch p line of
          None \<Rightarrow>
            (Some (entry\<lparr>ParseError := Some ErrNoMatch, Fields := (Fields entry)(''raw'' \<mapsto> VStr line)\<rparr>), None)
        | Some matches \<Rightarrow>
            (Some (entry\<lparr>Fields := foldl apache_step (Fields entry) (tl (zip (SubexpNames p) matches))\<rparr>),
             None))"

definition NewApacheParser :: Parser where
  "NewApacheParser =
     \<lparr> Name = ''apache'',
       Description = ''Apache/Nginx Combined Log Format'',
       CanParse = ApacheParser_CanParse apache_pattern,
       Parse = ApacheParser_Parse apache_pattern \<rparr>"

section \<open>The generic parser (generic\_parser.go)\<close>

definition level :: re where
  \<comment> \<open>\<open>DEBUG|INFO|WARN(?:ING)?|ERROR|FATAL|TRACE\<close>\<close>
  "level = Alts [Lit ''DEBUG'', Lit ''INFO'', Seq (Lit ''WARN'') (Opt (Lit ''ING'')),
                 Lit ''ERROR'', Lit ''FATAL'', Lit ''TRACE'']"

definition stamp :: re where
  \<comment> \<open>\<open>\\d{4}-\\d{2}-\\d{2}[T\\s]\\d{2}:\\d{2}:\\d{2}(?:\\.\\d+)?\<close>\<close>
  "stamp = Seqs [ymd, Cls (\<lambda>c. c = CHR ''T'' \<or> isSpace c), hms, fraction]"

definition message :: "nat \<Rightarrow> re" where
  \<comment> \<open>\<open>(?P<message>.+)$\<close>\<close>
  "message i = Seq (Grp i (Plus (Cls anyChar))) Eol"

definition generic_re0 :: re where
  "generic_re0 =
     Seqs [Bol,
           Grp 1 (Seq stamp
                    (Opt (Alt (Chr (CHR ''Z''))
                              (Seqs [Cls (oneOf ''+-''), Rep 2 digit, Opt (Chr (CHR '':'')), Rep 2 digit])))),
           spaces1, Grp 2 level, spaces1, message 3]"

definition generic_re1 :: re where
  "generic_re1 = Seqs [Bol, Grp 1 level, spaces1, Grp 2 stamp, spaces1, message 3]"

definition generic_re2 :: re where
  "generic_re2 =
     Seqs [Bol, Opt (Seq (Grp 1 stamp) spaces1),
           Chr (CHR ''[''), Grp 2 level, Chr (CHR '']''), spaces1, message 3]"

definition generic_re3 :: re where
  "generic_re3 = Seqs [Bol, Grp 1 level, Plus (Cls (\<lambda>c. c = CHR '':'' \<or> c = CHR ''-'' \<or> isSpace c)), message 2]"

definition generic_patterns :: "regexp list" where
  "generic_patterns =
     [MustCompile generic_re0 [[], ''timestamp'', ''level'', ''message''],
      MustCompile generic_re1 [[], ''level'', ''timestamp'', ''message''],
      MustCompile generic_re2 [[], ''timestamp'', ''level'', ''message''],
      MustCompile generic_re3 [[], ''level'', ''message'']]"

definition generic_step :: "(string \<rightharpoonup> val) \<Rightarrow> string \<times> string \<Rightarrow> (string \<rightharpoonup> val)" where
  "generic_step fs nm =
     (let name = fst nm; match = snd nm in
        if name = [] \<or> match = [] then fs
        else fs(name \<mapsto> VStr (if name = ''level'' then ToUpper match else match)))"

text \<open>
  The loop over the patterns: the fields of the first pattern that matches, \<open>None\<close> when
  the loop ends without a match.
\<close>

fun generic_try :: "regexp list \<Rightarrow> string \<Rightarrow> (string \<rightharpoonup> val) \<Rightarrow> (string \<rightharpoonup> val) option" where
  "generic_try [] line fs = None"
| "generic_try (p # ps) line fs =
     (case FindStringSubmatch p line of
        Some matches \<Rightarrow> Some (foldl generic_step fs (tl (zip (SubexpNames p) matches)))
      | None \<Rightarrow> generic_try ps line fs)"

definition GenericParser_CanParse :: "string \<Rightarrow> bool" where
  "GenericParser_CanParse line = True"

definition GenericParser_Parse :: "regexp list \<Rightarrow> string \<Rightarrow> Entry option \<times> goerr option" where
  "GenericParser_Parse patterns line =
     (let entry = NewEntry line;
          trimmed = TrimSpace line
      in if trimmed = [] then
           (Some (entry\<lparr>Fields := (Fields entry)(''message'' \<mapsto> VStr []), ParseError := Some ErrEmptyLine\<rparr>),
            None)
         else
           (case generic_try patterns line (Fields entry) of
              Some fs \<Rightarrow> (Some (entry\<lparr>Fields := fs\<rparr>), None)
            | None \<Rightarrow> (Some (entry\<lparr>Fields := (Fields entry)(''message'' \<mapsto> VStr trimmed)\<rparr>), None)))"

definition NewGenericParser :: Parser where
  "NewGenericParser =
     \<lparr> Name = ''generic'',
       Description = ''Generic timestamp/level patterns (fallback)'',
       CanParse = GenericParser_CanParse,
       Parse = GenericParser_Parse generic_patterns \<rparr>"

section \<open>The parser of a custom pattern (regex\_parser.go)\<close>

text \<open>
  \<open>NewRegexParser\<close> compiles the text of the pattern; \<open>compiled\<close> is what \<open>regexp.Compile\<close>
  returns for it (\<open>None\<close> for an error). A pattern without a named group is refused.
\<close>

record RegexParser =
  pattern :: regexp
  patternText :: string

definition NewRegexParser :: "regexp option \<Rightarrow> string \<Rightarrow> goerr + RegexParser" where
  "NewRegexParser compiled text =
     (case compiled of
        None \<Rightarrow> Inl (ErrOther ''invalid regex pattern'')
      | Some p \<Rightarrow>
          if list_all (\<lambda>name. name = []) (SubexpNames p)
          then Inl (ErrOther ''pattern must have at least one named group: (?P<name>...)'')
          else Inr \<lparr> pattern = p, patternText = text \<rparr>)"


definition regex_step :: "(string \<rightharpoonup> val) \<Rightarrow> string \<times> string \<Rightarrow> (string \<rightharpoonup> val)" where
  "regex_step fs nm =
     (let name = fst nm; match = snd nm in
        if name = [] then fs else fs(name \<mapsto> inferType match))"

definition RegexParser_Parse :: "RegexParser \<Rightarrow> string \<Rightarrow> Entry option \<times> goerr option" where
  "RegexParser_Parse p line =
     (let entry = NewEntry line in
        case FindStringSubmatch (pattern p) line of
          None \<Rightarrow>
            (Some (entry\<lparr>ParseError := Some ErrNoMatch, Fields := (Fields entry)(''raw'' \<mapsto> VStr line)\<rparr>), None)
        | Some matches \<Rightarrow>
            (Some (entry\<lparr>Fields := foldl regex_step (Fields entry) (tl (zip (SubexpNames (pattern p)) matches))\<rparr>),
             None))"


section \<open>The registry (registry.go)\<close>

record Registry =
  parsers :: "Parser list"
  cached :: "Parser option"
  adaptive :: bool
  forcedFormat :: string

definition WithAdaptiveMode :: "Registry \<Rightarrow> Registry" where
  "WithAdaptiveMode r = r\<lparr>adaptive := True\<rparr>"

definition WithForcedFormat :: "string \<Rightarrow> Registry \<Rightarrow> Registry" where
  "WithForcedFormat format r = r\<lparr>forcedFormat := ToLower format\<rparr>"

definition Register :: "Registry \<Rightarrow> Parser \<Rightarrow> Registry" where
  "Register r p = r\<lparr>parsers := parsers r @ [p]\<rparr>"

definition NewRegistry :: "(Registry \<Rightarrow> Registry) list \<Rightarrow> Registry" where
  "NewRegistry opts =
     (let r = foldl (\<lambda>r opt. opt r) \<lparr> parsers = [], cached = None, adaptive = False, forcedFormat = [] \<rparr> opts
      in foldl Register r
           [NewJSONParser, NewKeyValueParser, NewSyslogParser, NewApacheParser, NewGenericParser])"

definition GetParser :: "Registry \<Rightarrow> string \<Rightarrow> Parser option" where
  "GetParser r name = find (\<lambda>p. ToLower (Name p) = ToLower name) (parsers r)"

text \<open>
  What a call of \<open>Registry.Parse\<close> does: it returns Go's pair \<open>(*Entry, error)\<close>, or it
  panics on the \<open>nil\<close> entry of a parser that returned \<open>(nil, nil)\<close> (no parser of this
  package does).
\<close>

datatype outcome = Returned "Entry option" "goerr option" | NilDereference

definition returned :: "Entry option \<times> goerr option \<Rightarrow> outcome" where
  "returned res = Returned (fst res) (snd res)"

text \<open>The auto-detection loop over \<open>r.parsers\<close>, and what follows it.\<close>

fun autodetect :: "Registry \<Rightarrow> Parser list \<Rightarrow> string \<Rightarrow> outcome \<times> Registry" where
  "autodetect r [] line =
     (case GetParser r ''generic'' of
        Some generic \<Rightarrow> (returned (Parse generic line), r)
      | None \<Rightarrow>
          (Returned (Some ((NewEntry line)\<lparr>Fields := [''raw'' \<mapsto> VStr line],
                                           ParseError := Some ErrNoMatch\<rparr>)) None, r))"
| "autodetect r (p # ps) line =
     (if CanParse p line then
        (case Parse p line of
           (entry, Some err) \<Rightarrow> autodetect r ps line
         | (None, None) \<Rightarrow> (NilDereference, r)
         | (Some entry, None) \<Rightarrow>
             if ParseError entry = None then
               (Returned (Some entry) None,
                if \<not> adaptive r \<and> cached r = None then r\<lparr>cached := Some p\<rparr> else r)
             else autodetect r ps line)
      else autodetect r ps line)"

definition Registry_Parse :: "Registry \<Rightarrow> string \<Rightarrow> outcome \<times> Registry" where
  "Registry_Parse r line =
     (if TrimSpace line = [] then
        (Returned (Some ((NewEntry line)\<lparr>ParseError := Some ErrEmptyLine\<rparr>)) None, r)
      else if forcedFormat r \<noteq> [] then
        (case GetParser r (forcedFormat r) of
           None \<Rightarrow> (Returned None (Some (ErrUnknownFormat (forcedFormat r))), r)
         | Some parser \<Rightarrow> (returned (Parse parser line), r))
      else if \<not> adaptive r \<and> cached r \<noteq> None then
        (returned (Parse (the (cached r)) line), r)
      else autodetect r (parsers r) line)"

section \<open>Notions used in the statements\<close>

text \<open>
  A parser declines a line during auto-detection when \<open>CanParse\<close> is false, or when its
  \<open>Parse\<close> returns a Go error or an entry with a \<open>ParseError\<close>.
\<close>

definition declines :: "Parser \<Rightarrow> string \<Rightarrow> bool" where
  "declines q line =
     (\<not> CanParse q line \<or>
      (case Parse q line of
         (_, Some err) \<Rightarrow> True
       | (Some e, None) \<Rightarrow> ParseError e \<noteq> None
       | (None, None) \<Rightarrow> False))"




text \<open>The two lines of the caching test of the registry.\<close>

definition json_line :: string where
  "json_line = ''{\"level\": \"info\"}''"

definition syslog_line :: string where
  "syslog_line = ''Jan 15 10:30:45 myhost sshd[1234]: Accepted password''"

text \<open>A custom pattern with a group that can match the empty string: \<open>(?P<a>x*)(?P<b>y)\<close>.\<close>

definition xy_parser :: RegexParser where
  "xy_parser =
     \<lparr> pattern = MustCompile (Seq (Grp 1 (Star (Chr (CHR ''x'')))) (Grp 2 (Chr (CHR ''y'')))) [[], ''a'', ''b''],
       patternText = ''(?P<a>x*)(?P<b>y)'' \<rparr>"

section \<open>Empty lines\<close>

text \<open>
  C2. For a line that is empty or consists of white space only (\<open>TrimSpace\<close> leaves nothing
  of it), \<open>Registry.Parse\<close> returns, with a \<open>nil\<close> Go error, the fresh entry of the line with
  the empty-line error and an empty field map, and leaves the registry as it is: no
  parser is asked. It stores no \<open>message\<close> field; that is what the generic parser does for
  such a line when it is called itself.
\<close>

theorem Registry_Parse_empty_line:
  assumes "TrimSpace line = []"
  shows "Registry_Parse r line =
           (Returned (Some \<lparr> Fields = Map.empty, Raw = line, LineNum = 0,
                               ParseError = Some ErrEmptyLine \<rparr>) None, r)
         \<and> Parse NewGenericParser line =
           (Some \<lparr> Fields = [''message'' \<mapsto> VStr []], Raw = line, LineNum = 0,
                     ParseError = Some ErrEmptyLine \<rparr>, None)"
  using assms by (simp add: Registry_Parse_def NewEntry_def NewGenericParser_def GenericParser_Parse_def)

theorem Registry_Parse_empty_line_witness:
  "TrimSpace [CHR '' '', CHR 0x09, CHR '' ''] = [] \<and>
   Registry_Parse (NewRegistry []) [CHR '' '', CHR 0x09, CHR '' ''] =
     (Returned (Some \<lparr> Fields = Map.empty, Raw = [CHR '' '', CHR 0x09, CHR '' ''], LineNum = 0,
                         ParseError = Some ErrEmptyLine \<rparr>) None, NewRegistry [])"
proof -
  have h: "TrimSpace [CHR '' '', CHR 0x09, CHR '' ''] = []" by code_simp
  show ?thesis using h Registry_Parse_empty_line [OF h, of "NewRegistry []"] by simp
qed

text \<open>
  The claim as it is stated fails: the entry that the registry returns for a line of three
  spaces has no \<open>message\<close> field.
\<close>

theorem Registry_Parse_empty_line_no_message:
  "(case fst (Registry_Parse (NewRegistry []) ''   '') of
      Returned (Some e) None \<Rightarrow> ParseError e = Some ErrEmptyLine \<and> Fields e ''message'' \<noteq> Some (VStr [])
    | _ \<Rightarrow> False)"
proof -
  have "TrimSpace ''   '' = []" by code_simp
  then show ?thesis by (simp add: Registry_Parse_def NewEntry_def)
qed

section \<open>A forced format that is not registered\<close>

text \<open>
  C3. When the forced format is set and no registered parser has that name (names are
  compared after \<open>strings.ToLower\<close>), \<open>Registry.Parse\<close> fails with the unknown-format error
  for every line that is not empty or white space only, whatever else the line holds. (An
  empty line is answered before the format is looked at.)
\<close>

theorem Registry_Parse_unknown_format:
  assumes "TrimSpace line \<noteq> []"
    and "forcedFormat r \<noteq> []"
    and "\<forall>p \<in> set (parsers r). ToLower (Name p) \<noteq> ToLower (forcedFormat r)"
  shows "Registry_Parse r line = (Returned None (Some (ErrUnknownFormat (forcedFormat r))), r)"
proof -
  have "GetParser r (forcedFormat r) = None"
    using assms(3) by (simp add: GetParser_def find_None_iff)
  then show ?thesis using assms(1,2) by (simp add: Registry_Parse_def)
qed

theorem Registry_Parse_unknown_format_witness:
  "Registry_Parse (NewRegistry [WithForcedFormat ''Bogus'']) ''some log line'' =
     (Returned None (Some (ErrUnknownFormat ''bogus'')), NewRegistry [WithForcedFormat ''Bogus''])"
proof -
  have h1: "TrimSpace ''some log line'' \<noteq> []" by code_simp
  have h2: "forcedFormat (NewRegistry [WithForcedFormat ''Bogus'']) = ''bogus''" by code_simp
  have h3: "map (\<lambda>p. ToLower (Name p)) (parsers (NewRegistry [WithForcedFormat ''Bogus''])) =
              [''json'', ''kv'', ''syslog'', ''apache'', ''generic'']" by code_simp
  have h4: "ToLower ''bogus'' = ''bogus''" by code_simp
  have h5: "\<forall>p \<in> set (parsers (NewRegistry [WithForcedFormat ''Bogus''])).
              ToLower (Name p) \<noteq> ToLower (forcedFormat (NewRegistry [WithForcedFormat ''Bogus'']))"
  proof
    fix p assume "p \<in> set (parsers (NewRegistry [WithForcedFormat ''Bogus'']))"
    then have "ToLower (Name p) \<in> set (map (\<lambda>p. ToLower (Name p)) (parsers (NewRegistry [WithForcedFormat ''Bogus''])))"
      by simp
    then show "ToLower (Name p) \<noteq> ToLower (forcedFormat (NewRegistry [WithForcedFormat ''Bogus'']))"
      unfolding h3 h2 h4 by auto
  qed
  show ?thesis
    using Registry_Parse_unknown_format [OF h1 _ h5] h2 by simp
qed

text \<open>
  The comparison of names is that of \<open>strings.ToLower\<close> on the whole of Unicode: the name
  spelled with the Kelvin sign (U+212A, whose lower case is \<open>k\<close>) and \<open>V\<close> is stored as
  \<open>kv\<close> and finds the key=value parser, and a byte that is no UTF-8 is stored as U+FFFD.
\<close>

lemma forced_format_kelvin:
  "forcedFormat (NewRegistry [WithForcedFormat [CHR 0xE2, CHR 0x84, CHR 0xAA, CHR ''V'']]) = ''kv'' \<and>
   map_option Name (GetParser (NewRegistry []) [CHR 0xE2, CHR 0x84, CHR 0xAA, CHR ''V'']) = Some ''kv'' \<and>
   ToLower [CHR 0xFF] = [CHR 0xEF, CHR 0xBF, CHR 0xBD]"
  by code_simp

text \<open>
  The claim as it is stated fails on the empty line: with the forced format \<open>bogus\<close> the
  call returns the empty-line entry and no Go error.
\<close>

theorem Registry_Parse_unknown_format_empty_line:
  "fst (Registry_Parse (NewRegistry [WithForcedFormat ''bogus'']) []) =
     Returned (Some \<lparr> Fields = Map.empty, Raw = [], LineNum = 0, ParseError = Some ErrEmptyLine \<rparr>) None"
  by (simp add: Registry_Parse_def NewEntry_def TrimSpace_def TrimRightSpace_def)

section \<open>The cache of the registry\<close>

lemma autodetect_first_accept:
  assumes "\<forall>q \<in> set pre. declines q line"
    and "CanParse p line" and "Parse p line = (Some e, None)" and "ParseError e = None"
  shows "autodetect r (pre @ p # post) line =
           (Returned (Some e) None, if \<not> adaptive r \<and> cached r = None then r\<lparr>cached := Some p\<rparr> else r)"
  using assms(1)
proof (induction pre)
  case Nil
  show ?case using assms(2-4) by simp
next
  case (Cons q pre)
  then have "declines q line" and rest: "\<forall>q \<in> set pre. declines q line" by simp_all
  then have "autodetect r (q # pre @ p # post) line = autodetect r (pre @ p # post) line"
    by (auto simp: declines_def split: prod.splits option.splits)
  with Cons.IH [OF rest] show ?case by simp
qed

lemma Registry_Parse_autodetect:
  assumes "TrimSpace line \<noteq> []" and "forcedFormat r = []" and "adaptive r \<or> cached r = None"
  shows "Registry_Parse r line = autodetect r (parsers r) line"
  using assms by (auto simp: Registry_Parse_def)

lemma Registry_Parse_cached:
  assumes "TrimSpace line \<noteq> []" and "forcedFormat r = []" and "\<not> adaptive r" and "cached r = Some p"
  shows "Registry_Parse r line = (returned (Parse p line), r)"
  using assms by (simp add: Registry_Parse_def)

lemma json_line_accepted:
  "TrimSpace json_line \<noteq> [] \<and> CanParse NewJSONParser json_line \<and>
   (case Parse NewJSONParser json_line of
      (Some e, None) \<Rightarrow> ParseError e = None \<and> Fields e ''level'' = Some (VStr ''info'')
    | _ \<Rightarrow> False)"
  by code_simp

lemma syslog_line_json:
  "TrimSpace syslog_line \<noteq> [] \<and> \<not> CanParse NewJSONParser syslog_line \<and>
   (case Parse NewJSONParser syslog_line of
      (Some e, None) \<Rightarrow> ParseError e = Some (ErrJSON SyntaxError)
    | _ \<Rightarrow> False)"
  by code_simp

lemma syslog_line_kv: "\<not> CanParse NewKeyValueParser syslog_line"
  by code_simp

lemma syslog_line_syslog:
  "CanParse NewSyslogParser syslog_line \<and>
   (case Parse NewSyslogParser syslog_line of
      (Some e, None) \<Rightarrow> ParseError e = None \<and> Fields e ''pid'' = Some (VInt 1234) \<and>
                         Fields e ''program'' = Some (VStr ''sshd'')
    | _ \<Rightarrow> False)"
  by code_simp

lemma NewRegistry_fields:
  "parsers (NewRegistry []) = [] @ NewJSONParser # [NewKeyValueParser, NewSyslogParser, NewApacheParser, NewGenericParser]"
  "parsers (NewRegistry [WithAdaptiveMode]) =
     [] @ NewJSONParser # [NewKeyValueParser, NewSyslogParser, NewApacheParser, NewGenericParser]"
  "parsers (NewRegistry [WithAdaptiveMode]) =
     [NewJSONParser, NewKeyValueParser] @ NewSyslogParser # [NewApacheParser, NewGenericParser]"
  "forcedFormat (NewRegistry []) = []" "cached (NewRegistry []) = None" "\<not> adaptive (NewRegistry [])"
  "forcedFormat (NewRegistry [WithAdaptiveMode]) = []" "adaptive (NewRegistry [WithAdaptiveMode])"
  by (simp_all add: NewRegistry_def Register_def WithAdaptiveMode_def)

text \<open>
  C1. For a line that is not empty or white space only, and with no forced format:
  in strict mode with nothing cached, the first parser in registration order that claims
  the line and parses it without a failure gives the result and becomes the cache; in
  strict mode with a parser cached, the call is that parser's \<open>Parse\<close>, whatever parsers
  are registered (no \<open>CanParse\<close> is asked), and the registry stays as it is; in adaptive
  mode the first parser that claims and parses the line gives the result and nothing is
  cached. (An empty line is answered before the cache is looked at.)
\<close>

theorem Registry_Parse_caching:
  assumes "TrimSpace line \<noteq> []" and "forcedFormat r = []"
  shows "(\<not> adaptive r \<and> cached r = None \<and> parsers r = pre @ p # post \<and> (\<forall>q \<in> set pre. declines q line) \<and>
          CanParse p line \<and> Parse p line = (Some e, None) \<and> ParseError e = None
            \<longrightarrow> Registry_Parse r line = (Returned (Some e) None, r\<lparr>cached := Some p\<rparr>))
       \<and> (\<not> adaptive r \<and> cached r = Some c
            \<longrightarrow> Registry_Parse r line = (returned (Parse c line), r) \<and>
                Registry_Parse (r\<lparr>parsers := others\<rparr>) line = (returned (Parse c line), r\<lparr>parsers := others\<rparr>))
       \<and> (adaptive r \<and> parsers r = pre @ p # post \<and> (\<forall>q \<in> set pre. declines q line) \<and>
          CanParse p line \<and> Parse p line = (Some e, None) \<and> ParseError e = None
            \<longrightarrow> Registry_Parse r line = (Returned (Some e) None, r))"
proof (intro conjI impI)
  assume a: "\<not> adaptive r \<and> cached r = None \<and> parsers r = pre @ p # post \<and> (\<forall>q \<in> set pre. declines q line) \<and>
          CanParse p line \<and> Parse p line = (Some e, None) \<and> ParseError e = None"
  then have "Registry_Parse r line = autodetect r (pre @ p # post) line"
    using Registry_Parse_autodetect [OF assms] by simp
  with a show "Registry_Parse r line = (Returned (Some e) None, r\<lparr>cached := Some p\<rparr>)"
    using autodetect_first_accept [of pre line p e r post] by simp
next
  assume a: "\<not> adaptive r \<and> cached r = Some c"
  then show "Registry_Parse r line = (returned (Parse c line), r)"
    using Registry_Parse_cached [OF assms] by simp
next
  assume a: "\<not> adaptive r \<and> cached r = Some c"
  then show "Registry_Parse (r\<lparr>parsers := others\<rparr>) line = (returned (Parse c line), r\<lparr>parsers := others\<rparr>)"
    using Registry_Parse_cached [of line "r\<lparr>parsers := others\<rparr>" c] assms by simp
next
  assume a: "adaptive r \<and> parsers r = pre @ p # post \<and> (\<forall>q \<in> set pre. declines q line) \<and>
          CanParse p line \<and> Parse p line = (Some e, None) \<and> ParseError e = None"
  then have "Registry_Parse r line = autodetect r (pre @ p # post) line"
    using Registry_Parse_autodetect [OF assms] by simp
  with a show "Registry_Parse r line = (Returned (Some e) None, r)"
    using autodetect_first_accept [of pre line p e r post] by simp
qed

text \<open>
  The test of the registry: in strict mode the JSON line sets the cache and the syslog
  line then gets the syntax error of the JSON decoder; in adaptive mode the same two lines
  are parsed by the JSON parser and by the syslog parser.
\<close>

theorem Registry_Parse_caching_witness:
  "\<exists>e1 e2 e3.
     Registry_Parse (NewRegistry []) json_line =
       (Returned (Some e1) None, (NewRegistry [])\<lparr>cached := Some NewJSONParser\<rparr>) \<and>
     ParseError e1 = None \<and>
     Registry_Parse ((NewRegistry [])\<lparr>cached := Some NewJSONParser\<rparr>) syslog_line =
       (Returned (Some e2) None, (NewRegistry [])\<lparr>cached := Some NewJSONParser\<rparr>) \<and>
     ParseError e2 = Some (ErrJSON SyntaxError) \<and>
     Registry_Parse (NewRegistry [WithAdaptiveMode]) json_line =
       (Returned (Some e1) None, NewRegistry [WithAdaptiveMode]) \<and>
     Registry_Parse (NewRegistry [WithAdaptiveMode]) syslog_line =
       (Returned (Some e3) None, NewRegistry [WithAdaptiveMode]) \<and>
     ParseError e3 = None \<and> Fields e3 ''pid'' = Some (VInt 1234)"
proof -
  obtain e1 where e1: "Parse NewJSONParser json_line = (Some e1, None)" "ParseError e1 = None"
    using json_line_accepted by (auto split: prod.splits option.splits)
  obtain e2 where e2: "Parse NewJSONParser syslog_line = (Some e2, None)" "ParseError e2 = Some (ErrJSON SyntaxError)"
    using syslog_line_json by (auto split: prod.splits option.splits)
  obtain e3 where e3: "Parse NewSyslogParser syslog_line = (Some e3, None)" "ParseError e3 = None"
      "Fields e3 ''pid'' = Some (VInt 1234)"
    using syslog_line_syslog by (auto split: prod.splits option.splits)
  have j: "TrimSpace json_line \<noteq> []" "CanParse NewJSONParser json_line"
    using json_line_accepted by simp_all
  have s: "TrimSpace syslog_line \<noteq> []" "CanParse NewSyslogParser syslog_line"
    using syslog_line_json syslog_line_syslog by simp_all
  have d: "\<forall>q \<in> set [NewJSONParser, NewKeyValueParser]. declines q syslog_line"
    using syslog_line_json syslog_line_kv by (simp add: declines_def)
  have 1: "Registry_Parse (NewRegistry []) json_line =
             (Returned (Some e1) None, (NewRegistry [])\<lparr>cached := Some NewJSONParser\<rparr>)"
    using Registry_Parse_caching [OF j(1) NewRegistry_fields(4), of "[]" NewJSONParser _ e1]
      NewRegistry_fields j e1 by simp
  have 2: "Registry_Parse ((NewRegistry [])\<lparr>cached := Some NewJSONParser\<rparr>) syslog_line =
             (Returned (Some e2) None, (NewRegistry [])\<lparr>cached := Some NewJSONParser\<rparr>)"
    using Registry_Parse_caching [of syslog_line "(NewRegistry [])\<lparr>cached := Some NewJSONParser\<rparr>" _ _ _ _ NewJSONParser]
      NewRegistry_fields s e2 by (simp add: returned_def)
  have 3: "Registry_Parse (NewRegistry [WithAdaptiveMode]) json_line =
             (Returned (Some e1) None, NewRegistry [WithAdaptiveMode])"
    using Registry_Parse_caching [OF j(1) NewRegistry_fields(7), of "[]" NewJSONParser _ e1]
      NewRegistry_fields(2,8) j e1 by simp
  have 4: "Registry_Parse (NewRegistry [WithAdaptiveMode]) syslog_line =
             (Returned (Some e3) None, NewRegistry [WithAdaptiveMode])"
    using Registry_Parse_caching [OF s(1) NewRegistry_fields(7),
        of "[NewJSONParser, NewKeyValueParser]" NewSyslogParser _ e3]
      NewRegistry_fields(3,8) s e3 d by simp
  from 1 2 3 4 e1 e2 e3 show ?thesis by blast
qed

text \<open>
  The claim as it is stated fails on an empty line that follows: the JSON line has set
  the cache, and the empty line gets the empty-line entry of the registry, not what the
  cached JSON parser returns for it (a syntax error of the decoder).
\<close>

theorem Registry_Parse_cached_empty_line:
  "cached (snd (Registry_Parse (NewRegistry []) json_line)) = Some NewJSONParser \<and>
   (case (fst (Registry_Parse (snd (Registry_Parse (NewRegistry []) json_line)) []), Parse NewJSONParser []) of
      (Returned (Some e) None, (Some e', None)) \<Rightarrow>
          ParseError e = Some ErrEmptyLine \<and> ParseError e' = Some (ErrJSON SyntaxError)
    | _ \<Rightarrow> False)"
proof -
  obtain e1 where e1: "Parse NewJSONParser json_line = (Some e1, None)" "ParseError e1 = None"
    using json_line_accepted by (auto split: prod.splits option.splits)
  have "autodetect (NewRegistry []) (parsers (NewRegistry [])) json_line =
          (Returned (Some e1) None, (NewRegistry [])\<lparr>cached := Some NewJSONParser\<rparr>)"
    unfolding NewRegistry_fields(1)
    using autodetect_first_accept [of "[]" json_line NewJSONParser e1 "NewRegistry []"] e1
      json_line_accepted NewRegistry_fields(5,6) by simp
  then have 1: "snd (Registry_Parse (NewRegistry []) json_line) = (NewRegistry [])\<lparr>cached := Some NewJSONParser\<rparr>"
    using Registry_Parse_autodetect [of json_line "NewRegistry []"] json_line_accepted NewRegistry_fields(4,5)
    by simp
  have 2: "TrimSpace [] = []" by (simp add: TrimSpace_def TrimRightSpace_def)
  have 3: "(case Parse NewJSONParser [] of (Some e', None) \<Rightarrow> ParseError e' = Some (ErrJSON SyntaxError) | _ \<Rightarrow> False)"
    by code_simp
  show ?thesis
    unfolding 1 using 2 3 by (auto simp: Registry_Parse_def NewEntry_def split: prod.splits option.splits)
qed

section \<open>Go errors\<close>















section \<open>Custom patterns\<close>

text \<open>
  C7. The claim says that a named group whose capture is empty does not become a field.
  The loop of \<open>RegexParser.Parse\<close> skips the round of index 0 and the groups without a
  name, and stores every other group, also one whose text is empty: for the pattern
  \<open>(?P<a>x*)(?P<b>y)\<close> and the line \<open>y\<close> the entry has the field \<open>a\<close> with the empty
  string. (The loops of the syslog, Apache and generic parsers skip an empty text.)
\<close>

theorem RegexParser_Parse_empty_capture:
  "(case RegexParser_Parse xy_parser ''y'' of
      (Some e, None) \<Rightarrow>
          ParseError e = None \<and> Fields e ''a'' = Some (VStr []) \<and> Fields e ''b'' = Some (VStr ''y'')
    | _ \<Rightarrow> False)"
  by code_simp

section \<open>Keys met twice in a key=value line\<close>

lemma foldl_kv_step_other:
  "\<forall>m \<in> set mts. kv_key m \<noteq> k \<Longrightarrow> foldl kv_step fs mts k = fs k"
  by (induction mts arbitrary: fs) (auto simp: kv_step_def)

lemma foldl_kv_step_last:
  assumes "\<forall>m' \<in> set post. kv_key m' \<noteq> kv_key m"
  shows "foldl kv_step fs (pre @ m # post) (kv_key m) = Some (inferType (kv_value m))"
  using foldl_kv_step_other [OF assms, of "kv_step (foldl kv_step fs pre) m"]
  by (simp add: kv_step_def)

lemma kv_example:
  "FindAllStringSubmatch kv_pattern ''a=1 a=2 b=x'' =
     [[''a=1'', ''a'', [], [], ''1'']] @ [''a=2'', ''a'', [], [], ''2''] # [[''b=x'', ''b'', [], [], ''x'']]"
  by code_simp

text \<open>
  C10. When the matches of the key=value pattern in a line, from left to right, hold a
  pair that no later pair shares its key with, the entry of the line has no failure and
  holds for that key the inferred type of that pair's value: the value of the rightmost
  pair of a key is the one that is kept, whatever pairs of the same key stand before it.
  (The field map is a map: a key is held once.)
\<close>

theorem KeyValueParser_last_pair_wins:
  assumes "FindAllStringSubmatch p line = pre @ m # post"
    and "\<forall>m' \<in> set post. kv_key m' \<noteq> kv_key m"
  shows "\<exists>e. KeyValueParser_Parse p line = (Some e, None) \<and> ParseError e = None \<and>
             Fields e (kv_key m) = Some (inferType (kv_value m))"
  using assms(1) foldl_kv_step_last [OF assms(2), of Map.empty pre]
  by (simp add: KeyValueParser_Parse_def NewEntry_def)

theorem KeyValueParser_last_pair_wins_witness:
  "\<exists>e. Parse NewKeyValueParser ''a=1 a=2 b=x'' = (Some e, None) \<and> ParseError e = None \<and>
        Fields e ''a'' = Some (VInt64 2)"
proof -
  have v: "inferType ''2'' = VInt64 2" by code_simp
  have k: "kv_key [''a=2'', ''a'', [], [], ''2''] = ''a''" "kv_value [''a=2'', ''a'', [], [], ''2''] = ''2''"
      "kv_key [''b=x'', ''b'', [], [], ''x''] = ''b''"
    by (simp_all add: kv_key_def kv_value_def)
  show ?thesis
    using KeyValueParser_last_pair_wins [OF kv_example] k v
    by (simp add: NewKeyValueParser_def)
qed

end
